theory Spec2Isabelle
  imports Main "HOL-Library.Char_ord" "HOL-Library.List_Lexorder" "HOL-Library.AList"
    "HOL-Library.Multiset" "HOL-Library.Sublist"
begin

section \<open>Python values\<close>

text \<open>
  A Python \<open>str\<close> is modelled as a \<open>string\<close> whose characters are the code points
  below 256 (the Latin-1 block, which holds the accented Spanish letters the parser's
  patterns name). The character tables below are those of CPython's Unicode database
  restricted to that block.
\<close>

definition code :: "char \<Rightarrow> nat" where
  "code c = of_char c"

text \<open>\<open>str.isspace\<close> and the pattern category \<open>\s\<close>.\<close>

definition is_space :: "char \<Rightarrow> bool" where
  "is_space c = (let n = code c in
     (9 \<le> n \<and> n \<le> 13) \<or> (28 \<le> n \<and> n \<le> 32) \<or> n = 133 \<or> n = 160)"

text \<open>The pattern category \<open>\d\<close> (decimal digits).\<close>

definition is_decimal :: "char \<Rightarrow> bool" where
  "is_decimal c = (let n = code c in 48 \<le> n \<and> n \<le> 57)"

text \<open>The characters \<open>str.isdigit\<close> accepts: the decimal digits and the superscripts 1, 2, 3.\<close>

definition is_digit :: "char \<Rightarrow> bool" where
  "is_digit c = (let n = code c in (48 \<le> n \<and> n \<le> 57) \<or> n = 178 \<or> n = 179 \<or> n = 185)"

text \<open>The pattern category \<open>\w\<close>: alphanumeric characters and the underscore.\<close>

definition is_word :: "char \<Rightarrow> bool" where
  "is_word c = (let n = code c in
     (48 \<le> n \<and> n \<le> 57) \<or> (65 \<le> n \<and> n \<le> 90) \<or> n = 95 \<or> (97 \<le> n \<and> n \<le> 122) \<or>
     n = 170 \<or> n = 178 \<or> n = 179 \<or> n = 181 \<or> n = 185 \<or> n = 186 \<or>
     (188 \<le> n \<and> n \<le> 190) \<or> (192 \<le> n \<and> n \<le> 214) \<or> (216 \<le> n \<and> n \<le> 246) \<or>
     (248 \<le> n \<and> n \<le> 255))"

text \<open>\<open>str.isprintable\<close>, used by \<open>repr\<close>.\<close>

definition is_printable :: "char \<Rightarrow> bool" where
  "is_printable c = (let n = code c in
     \<not> (n \<le> 31 \<or> (127 \<le> n \<and> n \<le> 160) \<or> n = 173))"

definition lower_char :: "char \<Rightarrow> char" where
  "lower_char c = (let n = code c in
     if (65 \<le> n \<and> n \<le> 90) \<or> (192 \<le> n \<and> n \<le> 214) \<or> (216 \<le> n \<and> n \<le> 222)
     then char_of (n + 32) else c)"

text \<open>\<open>str.lower\<close>.\<close>

definition lower :: "string \<Rightarrow> string" where
  "lower s = map lower_char s"

text \<open>\<open>str.strip()\<close> removes white space at both ends; \<open>str.strip(chars)\<close> removes the
  characters of \<open>chars\<close>.\<close>

definition strip_by :: "(char \<Rightarrow> bool) \<Rightarrow> string \<Rightarrow> string" where
  "strip_by p s = rev (dropWhile p (rev (dropWhile p s)))"

definition strip :: "string \<Rightarrow> string" where
  "strip s = strip_by is_space s"

definition strip_chars :: "string \<Rightarrow> string \<Rightarrow> string" where
  "strip_chars chars s = strip_by (\<lambda>c. c \<in> set chars) s"

text \<open>\<open>sub in s\<close> on strings.\<close>

fun contains :: "string \<Rightarrow> string \<Rightarrow> bool" where
  "contains sub [] = (sub = [])"
| "contains sub (c # cs) = (prefix sub (c # cs) \<or> contains sub cs)"

text \<open>\<open>s.replace(old, new)\<close> for a one-character \<open>old\<close>.\<close>

definition replace_char :: "char \<Rightarrow> string \<Rightarrow> string \<Rightarrow> string" where
  "replace_char old new s = concat (map (\<lambda>c. if c = old then new else [c]) s)"

text \<open>\<open>sep.join(parts)\<close>.\<close>

fun join :: "string \<Rightarrow> string list \<Rightarrow> string" where
  "join sep [] = []"
| "join sep [x] = x"
| "join sep (x # y # ys) = x @ sep @ join sep (y # ys)"

text \<open>\<open>str(n)\<close> for an integer.\<close>

function str_nat :: "nat \<Rightarrow> string" where
  "str_nat n = (if n < 10 then [''0123456789'' ! n]
                else str_nat (n div 10) @ [''0123456789'' ! (n mod 10)])"
  by pat_completeness auto
termination
  by (relation "measure id") auto

definition str_int :: "int \<Rightarrow> string" where
  "str_int i = (if i < 0 then ''-'' @ str_nat (nat (- i)) else str_nat (nat i))"

definition hex_digit :: "nat \<Rightarrow> char" where
  "hex_digit n = ''0123456789abcdef'' ! (n mod 16)"

definition hex2 :: "char \<Rightarrow> string" where
  "hex2 c = [hex_digit (code c div 16), hex_digit (code c)]"

text \<open>The exceptions. \<open>External\<close> is an exception raised by a collaborator (the remote
  query capability, a model or search client), named by a text.\<close>

datatype pyerror =
    ValueError string
  | TypeError
  | AttributeError
  | JSONDecodeError
  | IndexError
  | External string

text \<open>
  \<open>int(s)\<close> on the strings the parser passes to it: non-empty and made of characters that
  \<open>\d\<close> or \<open>str.isdigit\<close> accept. A superscript digit passes \<open>isdigit\<close> and is
  rejected by \<open>int\<close> with a \<open>ValueError\<close>. (The bound that recent interpreters put on
  the number of digits of the conversion is left out.)
\<close>

definition digit_val :: "char \<Rightarrow> nat" where
  "digit_val c = code c - 48"

definition py_int :: "string \<Rightarrow> pyerror + int" where
  "py_int s = (if s \<noteq> [] \<and> list_all is_decimal s
               then Inr (int (foldl (\<lambda>a c. 10 * a + digit_val c) 0 s))
               else Inl (ValueError ''invalid literal for int()''))"

text \<open>\<open>str.isdigit\<close>.\<close>

definition isdigit :: "string \<Rightarrow> bool" where
  "isdigit s = (s \<noteq> [] \<and> list_all is_digit s)"

text \<open>
  The values the pipeline handles. Floating-point numbers are kept abstract: \<open>'f\<close> is the
  type of Python floats, and every operation on them is a field of \<open>pylib\<close>. A set is
  given by its elements in iteration order, a dictionary by its items in insertion order
  (keys are strings, as the annotations \<open>Dict[str, Any]\<close> say).
\<close>

datatype 'f pyval =
    PNone
  | PBool bool
  | PInt int
  | PFloat 'f
  | PStr string
  | PList "'f pyval list"
  | PTuple "'f pyval list"
  | PSet "'f pyval list"
  | PDict "(string \<times> 'f pyval) list"

text \<open>
  An instance of \<open>int\<close>: an integer proper or a \<open>bool\<close> (\<open>bool\<close> is a subclass of
  \<open>int\<close>; \<open>True\<close> compares as 1 and \<open>False\<close> as 0, and each stays the object it is).
\<close>

datatype pyint = IntObj int | BoolObj bool

fun int_value :: "pyint \<Rightarrow> int" where
  "int_value (IntObj n) = n"
| "int_value (BoolObj b) = (if b then 1 else 0)"

fun int_obj :: "pyint \<Rightarrow> 'f pyval" where
  "int_obj (IntObj n) = PInt n"
| "int_obj (BoolObj b) = PBool b"

text \<open>
  The library functions the code calls and this development does not define:
  \<open>json.loads\<close> (\<open>None\<close> is a \<open>JSONDecodeError\<close>), \<open>float(s)\<close> (\<open>None\<close> is a
  \<open>ValueError\<close>), \<open>repr\<close> of a float, the JSON text of a float, the truth value of a float,
  the literals \<open>1.0\<close> and \<open>0.0\<close>, and float subtraction.
\<close>

record 'f pylib =
  json_loads :: "string \<Rightarrow> 'f pyval option"
  float_of_str :: "string \<Rightarrow> 'f option"
  float_repr :: "'f \<Rightarrow> string"
  float_json :: "'f \<Rightarrow> string"
  float_bool :: "'f \<Rightarrow> bool"
  float_one :: "'f"
  float_zero :: "'f"
  float_sub :: "'f \<Rightarrow> 'f \<Rightarrow> 'f"

text \<open>The truth value of an object, as \<open>not\<close>, \<open>or\<close> and \<open>if\<close> take it.\<close>

fun truthy :: "'f pylib \<Rightarrow> 'f pyval \<Rightarrow> bool" where
  "truthy lib PNone = False"
| "truthy lib (PBool b) = b"
| "truthy lib (PInt n) = (n \<noteq> 0)"
| "truthy lib (PFloat x) = float_bool lib x"
| "truthy lib (PStr s) = (s \<noteq> [])"
| "truthy lib (PList xs) = (xs \<noteq> [])"
| "truthy lib (PTuple xs) = (xs \<noteq> [])"
| "truthy lib (PSet xs) = (xs \<noteq> [])"
| "truthy lib (PDict kvs) = (kvs \<noteq> [])"

text \<open>\<open>d.get(k)\<close> and \<open>d.get(k, default)\<close>.\<close>

definition dict_get :: "(string \<times> 'f pyval) list \<Rightarrow> string \<Rightarrow> 'f pyval" where
  "dict_get d k = (case map_of d k of None \<Rightarrow> PNone | Some v \<Rightarrow> v)"

section \<open>query\_parser.py: QueryParams\<close>

record 'f query_params =
  qp_entity :: string
  qp_filters :: "(string \<times> 'f pyval) list"
  qp_metrics :: "'f pyval list"
  qp_raw_query :: string
  qp_limit :: "pyint option"

text \<open>
  The dataclass constructor followed by \<open>__post_init__\<close>. The dataclass does not check
  the type of \<open>entity\<close>: a true value that is not a string has no \<open>strip\<close> method
  (\<open>AttributeError\<close>). \<open>limit\<close> is an \<open>Optional[int]\<close>: absent or an instance of
  \<open>int\<close>, compared with 0 by its integer value.
\<close>

definition QueryParams ::
  "'f pylib \<Rightarrow> 'f pyval \<Rightarrow> (string \<times> 'f pyval) list \<Rightarrow> 'f pyval list \<Rightarrow> string \<Rightarrow> pyint option
    \<Rightarrow> pyerror + 'f query_params" where
  "QueryParams lib entity filters metrics raw_query limit =
     (if \<not> truthy lib entity then Inl (ValueError ''entity must be a non-empty string'')
      else case entity of
        PStr s \<Rightarrow>
          if strip s = [] then Inl (ValueError ''entity must be a non-empty string'')
          else if (case limit of None \<Rightarrow> False | Some l \<Rightarrow> int_value l \<le> 0)
          then Inl (ValueError ''limit must be a positive integer when provided'')
          else Inr \<lparr>qp_entity = s, qp_filters = filters, qp_metrics = metrics,
                    qp_raw_query = raw_query, qp_limit = limit\<rparr>
      | _ \<Rightarrow> Inl AttributeError)"

section \<open>Text forms of values: repr, str and JSON\<close>

definition dquote :: char where "dquote = CHR 0x22"
definition squote :: char where "squote = CHR 0x27"
definition backslash :: char where "backslash = CHR 0x5C"

text \<open>
  \<open>repr\<close> of a string: double quotes when the string has a single quote and no double
  quote, single quotes otherwise; the quote and the backslash escaped, tab, newline and
  carriage return by letter, every other non-printable character as \<open>\xhh\<close>.
\<close>

definition repr_char :: "char \<Rightarrow> char \<Rightarrow> string" where
  "repr_char q c =
     (if c = q \<or> c = backslash then [backslash, c]
      else if c = CHR 0x09 then [backslash, CHR ''t'']
      else if c = CHR 0x0A then [backslash, CHR ''n'']
      else if c = CHR 0x0D then [backslash, CHR ''r'']
      else if is_printable c then [c]
      else [backslash, CHR ''x''] @ hex2 c)"

definition repr_str :: "string \<Rightarrow> string" where
  "repr_str s =
     (let q = (if squote \<in> set s \<and> dquote \<notin> set s then dquote else squote)
      in [q] @ concat (map (repr_char q) s) @ [q])"

fun py_repr :: "'f pylib \<Rightarrow> 'f pyval \<Rightarrow> string" where
  "py_repr lib PNone = ''None''"
| "py_repr lib (PBool b) = (if b then ''True'' else ''False'')"
| "py_repr lib (PInt n) = str_int n"
| "py_repr lib (PFloat x) = float_repr lib x"
| "py_repr lib (PStr s) = repr_str s"
| "py_repr lib (PList xs) = ''['' @ join '', '' (map (py_repr lib) xs) @ '']''"
| "py_repr lib (PTuple xs) =
     (case map (py_repr lib) xs of
        [] \<Rightarrow> ''()''
      | [r] \<Rightarrow> ''('' @ r @ '',)''
      | rs \<Rightarrow> ''('' @ join '', '' rs @ '')'')"
| "py_repr lib (PSet xs) =
     (case map (py_repr lib) xs of
        [] \<Rightarrow> ''set()''
      | rs \<Rightarrow> ''{'' @ join '', '' rs @ ''}'')"
| "py_repr lib (PDict kvs) =
     ''{'' @ join '', '' (map (\<lambda>(k, v). repr_str k @ '': '' @ py_repr lib v) kvs) @ ''}''"

text \<open>\<open>str(v)\<close>, which is also what an f-string writes for \<open>{v}\<close>.\<close>

definition py_str :: "'f pylib \<Rightarrow> 'f pyval \<Rightarrow> string" where
  "py_str lib v = (case v of PStr s \<Rightarrow> s | _ \<Rightarrow> py_repr lib v)"

text \<open>
  \<open>json.dumps\<close> with its defaults (\<open>ensure_ascii\<close>, separators \<open>", "\<close> and \<open>": "\<close>) and
  the flag \<open>sort_keys\<close>. A tuple is written as a list; a set is not serialisable and makes
  \<open>json.dumps\<close> raise \<open>TypeError\<close>.
\<close>

definition json_char :: "char \<Rightarrow> string" where
  "json_char c =
     (if c = dquote then [backslash, dquote]
      else if c = backslash then [backslash, backslash]
      else if c = CHR 0x0A then [backslash, CHR ''n'']
      else if c = CHR 0x0D then [backslash, CHR ''r'']
      else if c = CHR 0x09 then [backslash, CHR ''t'']
      else if c = CHR 0x08 then [backslash, CHR ''b'']
      else if c = CHR 0x0C then [backslash, CHR ''f'']
      else if 32 \<le> code c \<and> code c \<le> 126 then [c]
      else [backslash, CHR ''u'', CHR ''0'', CHR ''0''] @ hex2 c)"

definition json_str :: "string \<Rightarrow> string" where
  "json_str s = [dquote] @ concat (map json_char s) @ [dquote]"

fun serialisable :: "'f pyval \<Rightarrow> bool" where
  "serialisable (PList xs) = list_all serialisable xs"
| "serialisable (PTuple xs) = list_all serialisable xs"
| "serialisable (PSet xs) = False"
| "serialisable (PDict kvs) = list_all (\<lambda>(k, v). serialisable v) kvs"
| "serialisable v = True"

text \<open>The text \<open>json.dumps\<close> writes for a serialisable value. With \<open>sort_keys\<close> the items
  of every dictionary are written in the order of their keys.\<close>

fun json_enc :: "'f pylib \<Rightarrow> bool \<Rightarrow> 'f pyval \<Rightarrow> string" where
  "json_enc lib sort_keys PNone = ''null''"
| "json_enc lib sort_keys (PBool b) = (if b then ''true'' else ''false'')"
| "json_enc lib sort_keys (PInt n) = str_int n"
| "json_enc lib sort_keys (PFloat x) = float_json lib x"
| "json_enc lib sort_keys (PStr s) = json_str s"
| "json_enc lib sort_keys (PList xs) =
     ''['' @ join '', '' (map (json_enc lib sort_keys) xs) @ '']''"
| "json_enc lib sort_keys (PTuple xs) =
     ''['' @ join '', '' (map (json_enc lib sort_keys) xs) @ '']''"
| "json_enc lib sort_keys (PSet xs) = []"
| "json_enc lib sort_keys (PDict kvs) =
     (let items = map (\<lambda>(k, v). (k, json_enc lib sort_keys v)) kvs;
          ordered = (if sort_keys then sort_key fst items else items)
      in ''{'' @ join '', '' (map (\<lambda>(k, t). json_str k @ '': '' @ t) ordered) @ ''}'')"

definition json_dumps :: "'f pylib \<Rightarrow> bool \<Rightarrow> 'f pyval \<Rightarrow> pyerror + string" where
  "json_dumps lib sort_keys v =
     (if serialisable v then Inr (json_enc lib sort_keys v) else Inl TypeError)"

section \<open>entity\_resolver.py\<close>

record 'f resolved_entity =
  re_name :: string
  re_score :: 'f
  re_metadata :: "(string \<times> 'f pyval) list"

text \<open>
  The answer of a collection's \<open>query\<close>: the entries \<open>documents\<close>, \<open>metadatas\<close> and
  \<open>distances\<close> of the result dictionary, each absent or a list of rows (one row per query
  text). A metadata may be \<open>None\<close>.
\<close>

datatype 'f chroma_results = ChromaResults
  (cr_documents: "string list list option")
  (cr_metadatas: "(string \<times> 'f pyval) list option list list option")
  (cr_distances: "'f list list option")


text \<open>
  The resolver's collaborators. The similarity-search client is given by what
  \<open>get_or_create_collection(name).query(query_texts=[mention], n_results=top_k)\<close> does:
  it raises or returns a result. The reranking client is given by what
  \<open>rerank(query, documents)\<close> does: it raises or returns the pairs of \<open>index\<close> and
  \<open>relevance_score\<close> of \<open>response.results\<close>.
\<close>

record 'f entity_resolver =
  er_chroma_client :: "(string \<Rightarrow> string \<Rightarrow> int \<Rightarrow> pyerror + 'f chroma_results) option"
  er_cohere_client ::
    "(string \<Rightarrow> (string \<times> (string \<times> 'f pyval) list) list \<Rightarrow> pyerror + (int \<times> 'f) list) option"
  er_collection_name :: string


text \<open>\<open>(field or [[]])[0]\<close>.\<close>

definition first_row :: "'a list list option \<Rightarrow> 'a list" where
  "first_row field = (case field of None \<Rightarrow> [] | Some [] \<Rightarrow> [] | Some (row # rows) \<Rightarrow> row)"

fun zip3 :: "'a list \<Rightarrow> 'b list \<Rightarrow> 'c list \<Rightarrow> ('a \<times> 'b \<times> 'c) list" where
  "zip3 (a # as) (b # bs) (c # cs) = (a, b, c) # zip3 as bs cs"
| "zip3 as bs cs = []"


text \<open>\<open>_search_chroma\<close>. The score of a hit is \<open>1.0 - float(distance)\<close>.\<close>

definition search_chroma ::
  "'f pylib \<Rightarrow> 'f entity_resolver \<Rightarrow> string \<Rightarrow> int \<Rightarrow> 'f resolved_entity list" where
  "search_chroma lib self mention top_k =
     (case er_chroma_client self of
        None \<Rightarrow> [\<lparr>re_name = mention, re_score = float_one lib, re_metadata = []\<rparr>]
      | Some client \<Rightarrow>
        (case client (er_collection_name self) mention top_k of
           Inl exc \<Rightarrow> [\<lparr>re_name = mention, re_score = float_one lib, re_metadata = []\<rparr>]
         | Inr results \<Rightarrow>
           (let candidates =
                  map (\<lambda>(doc, metadata, distance).
                         \<lparr>re_name = doc, re_score = float_sub lib (float_one lib) distance,
                          re_metadata = (case metadata of None \<Rightarrow> [] | Some m \<Rightarrow> m)\<rparr>)
                      (zip3 (first_row (cr_documents results)) (first_row (cr_metadatas results))
                         (first_row (cr_distances results)))
            in if candidates = []
               then [\<lparr>re_name = mention, re_score = float_zero lib, re_metadata = []\<rparr>]
               else candidates)))"


text \<open>\<open>_rerank_with_cohere\<close>. \<open>id_to_candidate.get(item.index)\<close> finds a candidate for
  the indices \<open>0 \<dots> len(candidates) - 1\<close> only.\<close>

definition rerank_with_cohere ::
  "'f entity_resolver \<Rightarrow> string \<Rightarrow> 'f resolved_entity list \<Rightarrow> 'f resolved_entity list" where
  "rerank_with_cohere self mention candidates =
     (case er_cohere_client self of
        None \<Rightarrow> candidates
      | Some client \<Rightarrow>
        (case client mention (map (\<lambda>c. (re_name c, re_metadata c)) candidates) of
           Inl exc \<Rightarrow> candidates
         | Inr results \<Rightarrow>
           (let reranked =
                  List.map_filter
                    (\<lambda>(index, relevance_score).
                       if 0 \<le> index \<and> index < int (length candidates)
                       then Some ((candidates ! nat index)\<lparr>re_score := relevance_score\<rparr>)
                       else None)
                    results
            in if reranked = [] then candidates else reranked)))"


text \<open>\<open>resolve\<close>; \<open>candidates[0]\<close> raises \<open>IndexError\<close> on an empty list.\<close>

definition resolve ::
  "'f pylib \<Rightarrow> 'f entity_resolver \<Rightarrow> string \<Rightarrow> int
    \<Rightarrow> pyerror + 'f resolved_entity option" where
  "resolve lib self mention top_k =
     (let candidates = search_chroma lib self mention top_k in
      if candidates = [] then Inr None
      else
        (let candidates = (if er_cohere_client self \<noteq> None \<and> length candidates > 1
                           then rerank_with_cohere self mention candidates else candidates)
         in case candidates of
              [] \<Rightarrow> Inl IndexError
            | top_candidate # rest \<Rightarrow> Inr (Some top_candidate)))"

section \<open>soql\_builder.py\<close>

text \<open>\<open>isinstance(value, (int, float))\<close>; \<open>bool\<close> is a subclass of \<open>int\<close>.\<close>

fun is_number :: "'f pyval \<Rightarrow> bool" where
  "is_number (PInt n) = True"
| "is_number (PBool b) = True"
| "is_number (PFloat x) = True"
| "is_number v = False"

text \<open>
  \<open>isinstance(value, Iterable)\<close> with the elements that iterating the value yields:
  a string yields its characters, a dictionary its keys.
\<close>

fun iter_elems :: "'f pyval \<Rightarrow> 'f pyval list option" where
  "iter_elems (PStr s) = Some (map (\<lambda>c. PStr [c]) s)"
| "iter_elems (PList xs) = Some xs"
| "iter_elems (PTuple xs) = Some xs"
| "iter_elems (PSet xs) = Some xs"
| "iter_elems (PDict kvs) = Some (map (\<lambda>(k, v). PStr k) kvs)"
| "iter_elems v = None"

definition quote :: "'f pylib \<Rightarrow> 'f pyval \<Rightarrow> string" where
  "quote lib v =
     (if is_number v then py_str lib v
      else [squote] @ replace_char squote [squote, squote] (py_str lib v) @ [squote])"

text \<open>
  \<open>_render_filter\<close>. The last line is \<open>json.dumps(value)\<close>: among the values of
  \<open>pyval\<close> only \<open>None\<close> reaches it, and \<open>None\<close> is serialisable.
\<close>

definition render_filter :: "'f pylib \<Rightarrow> string \<Rightarrow> 'f pyval \<Rightarrow> string" where
  "render_filter lib key v =
     (if is_number v then key @ '' = '' @ py_str lib v
      else case v of
        PStr s \<Rightarrow> ''upper('' @ key @ '') LIKE upper('' @ [squote] @ ''%'' @
                  replace_char squote [squote, squote] s @ ''%'' @ [squote] @ '')''
      | _ \<Rightarrow>
        (case iter_elems v of
           Some vs \<Rightarrow> key @ '' IN ('' @ join '', '' (map (quote lib) vs) @ '')''
         | None \<Rightarrow> key @ '' = '' @ json_enc lib False v))"

definition build_where :: "'f pylib \<Rightarrow> (string \<times> 'f pyval) list \<Rightarrow> string" where
  "build_where lib filters =
     (let clauses = map (\<lambda>(key, v). render_filter lib key v) filters
      in join '' AND '' (filter (\<lambda>c. c \<noteq> []) clauses))"

text \<open>\<open>SoQLBuilder.__init__\<close>: \<open>dataset_map or {}\<close>.\<close>

definition SoQLBuilder :: "(string \<times> string) list option \<Rightarrow> (string \<times> string) list" where
  "SoQLBuilder dataset_map = (case dataset_map of None \<Rightarrow> [] | Some m \<Rightarrow> m)"

text \<open>\<open>_resolve_dataset\<close>. A dataclass instance is always true, so \<open>entity and \<dots>\<close>
  only asks whether an entity was given.\<close>

definition resolve_dataset ::
  "'f pylib \<Rightarrow> (string \<times> string) list \<Rightarrow> 'f query_params \<Rightarrow> 'f resolved_entity option
    \<Rightarrow> 'f pyval" where
  "resolve_dataset lib dataset_map params entity =
     (let fallback = PStr (case map_of dataset_map (qp_entity params) of
                             None \<Rightarrow> qp_entity params | Some d \<Rightarrow> d)
      in case entity of
           None \<Rightarrow> fallback
         | Some e \<Rightarrow>
             if truthy lib (dict_get (re_metadata e) ''dataset_id'')
             then dict_get (re_metadata e) ''dataset_id''
             else fallback)"

text \<open>\<open>sep.join(items)\<close> on a list of objects: \<open>TypeError\<close> unless all are strings.\<close>

fun the_strs :: "'f pyval list \<Rightarrow> string list option" where
  "the_strs [] = Some []"
| "the_strs (PStr s # vs) = (case the_strs vs of None \<Rightarrow> None | Some ss \<Rightarrow> Some (s # ss))"
| "the_strs (v # vs) = None"

definition py_join :: "string \<Rightarrow> 'f pyval list \<Rightarrow> pyerror + string" where
  "py_join sep vs = (case the_strs vs of None \<Rightarrow> Inl TypeError | Some ss \<Rightarrow> Inr (join sep ss))"

record 'f soql_payload =
  sp_dataset :: "'f pyval"
  sp_params :: "(string \<times> 'f pyval) list"

definition build ::
  "'f pylib \<Rightarrow> (string \<times> string) list \<Rightarrow> 'f query_params \<Rightarrow> 'f resolved_entity option
    \<Rightarrow> pyerror + 'f soql_payload" where
  "build lib dataset_map params entity =
     (let dataset_identifier = resolve_dataset lib dataset_map params entity;
          where_clause = build_where lib (qp_filters params);
          p1 = (if where_clause \<noteq> [] then [(''$where'', PStr where_clause)] else [])
      in case (if qp_metrics params \<noteq> []
               then map_sum id (\<lambda>s. AList.update ''$select'' (PStr s) p1)
                      (py_join '', '' (qp_metrics params))
               else Inr p1) of
           Inl err \<Rightarrow> Inl err
         | Inr p2 \<Rightarrow>
             Inr \<lparr>sp_dataset = dataset_identifier,
                  sp_params = (case qp_limit params of
                                 None \<Rightarrow> p2
                               | Some l \<Rightarrow> AList.update ''$limit'' (int_obj l) p2)\<rparr>)"

section \<open>secop\_client.py\<close>

text \<open>
  The client's state: the remote query capability, the cache store and the retry bound.
  \<open>sc_client dataset params i\<close> is what the call number \<open>i\<close> (from 0) of
  \<open>self._client.get(dataset, **params)\<close> within one \<open>query\<close> does: it raises (\<open>Inl\<close>) or
  returns the rows. The cache store is the map from keys to the texts it holds, or \<open>None\<close>
  when no store is configured.
\<close>

record 'f secop_client =
  sc_client :: "string \<Rightarrow> (string \<times> 'f pyval) list \<Rightarrow> nat \<Rightarrow> pyerror + 'f pyval"
  sc_redis :: "(string \<rightharpoonup> string) option"
  sc_max_retries :: int


text \<open>
  What one \<open>query\<close> does: its result (an exception or the value returned), the number of
  calls of the remote capability, the sleeps (\<open>k\<close> stands for
  \<open>time.sleep(retry_backoff * k)\<close>) and the writes \<open>setex(key, ttl, text)\<close> to the cache
  store. The cache store and \<open>time.sleep\<close> are taken not to raise (\<open>retry_backoff\<close> is
  not negative).
\<close>

record 'f query_outcome =
  qo_result :: "pyerror + 'f pyval"
  qo_calls :: nat
  qo_sleeps :: "int list"
  qo_setex :: "(string \<times> nat \<times> string) list"


text \<open>\<open>_cache_key\<close>: \<open>json.dumps(params, sort_keys=True)\<close> after the prefix and the
  dataset.\<close>

definition cache_key :: "'f pylib \<Rightarrow> string \<Rightarrow> (string \<times> 'f pyval) list \<Rightarrow> pyerror + string" where
  "cache_key lib dataset params =
     (case json_dumps lib True (PDict params) of
        Inl err \<Rightarrow> Inl err
      | Inr serialised_params \<Rightarrow> Inr (''secop:'' @ dataset @ '':'' @ serialised_params))"


text \<open>
  The loop \<open>while True\<close> of \<open>query\<close>, from the state \<open>attempt\<close>, with the calls made
  and the sleeps taken so far. It ends with the value of the first call that returns, or
  re-raises the exception of the call after which \<open>attempt\<close> exceeds \<open>max_retries\<close>.
\<close>

function retry_loop ::
  "(nat \<Rightarrow> pyerror + 'f pyval) \<Rightarrow> int \<Rightarrow> int \<Rightarrow> nat \<Rightarrow> int list
    \<Rightarrow> (pyerror + 'f pyval) \<times> nat \<times> int list" where
  "retry_loop get max_retries attempt calls sleeps =
     (case get calls of
        Inr result \<Rightarrow> (Inr result, Suc calls, sleeps)
      | Inl exc \<Rightarrow>
          (if attempt + 1 > max_retries then (Inl exc, Suc calls, sleeps)
           else retry_loop get max_retries (attempt + 1) (Suc calls) (sleeps @ [attempt + 1])))"
  by pat_completeness auto
termination
  by (relation "measure (\<lambda>(get, max_retries, attempt, calls, sleeps). nat (max_retries - attempt))")
    auto

declare retry_loop.simps [simp del]


text \<open>\<open>params or {}\<close>.\<close>

definition params_or_empty :: "(string \<times> 'f pyval) list option \<Rightarrow> (string \<times> 'f pyval) list" where
  "params_or_empty params_arg = (case params_arg of None \<Rightarrow> [] | Some p \<Rightarrow> p)"

definition query ::
  "'f pylib \<Rightarrow> 'f secop_client \<Rightarrow> string \<Rightarrow> (string \<times> 'f pyval) list option \<Rightarrow> 'f query_outcome" where
  "query lib self dataset params_arg =
     (let params = params_or_empty params_arg in
      case cache_key lib dataset params of
        Inl err \<Rightarrow> \<lparr>qo_result = Inl err, qo_calls = 0, qo_sleeps = [], qo_setex = []\<rparr>
      | Inr key \<Rightarrow>
        (case (case sc_redis self of None \<Rightarrow> None | Some store \<Rightarrow> store key) of
           Some cached \<Rightarrow>
             \<lparr>qo_result = (case json_loads lib cached of
                             None \<Rightarrow> Inl JSONDecodeError | Some v \<Rightarrow> Inr v),
              qo_calls = 0, qo_sleeps = [], qo_setex = []\<rparr>
         | None \<Rightarrow>
           (case retry_loop (sc_client self dataset params) (sc_max_retries self) 0 0 [] of
              (Inl exc, calls, sleeps) \<Rightarrow>
                \<lparr>qo_result = Inl exc, qo_calls = calls, qo_sleeps = sleeps, qo_setex = []\<rparr>
            | (Inr result, calls, sleeps) \<Rightarrow>
                (if sc_redis self \<noteq> None then
                   (case json_dumps lib False result of
                      Inl err \<Rightarrow>
                        \<lparr>qo_result = Inl err, qo_calls = calls, qo_sleeps = sleeps,
                         qo_setex = []\<rparr>
                    | Inr text \<Rightarrow>
                        \<lparr>qo_result = Inr result, qo_calls = calls, qo_sleeps = sleeps,
                         qo_setex = [(key, 300, text)]\<rparr>)
                 else \<lparr>qo_result = Inr result, qo_calls = calls, qo_sleeps = sleeps,
                       qo_setex = []\<rparr>))))"

section \<open>Regular expressions\<close>

text \<open>
  The fragment of Python's \<open>re\<close> that the parser's patterns use: literals (as they are,
  or under \<open>re.IGNORECASE\<close>), classes and categories, sequence, alternation, the greedy
  \<open>?\<close>, \<open>*\<close> and \<open>+\<close>, capturing groups, \<open>\b\<close> and \<open>$\<close>.
\<close>

datatype rx =
    Eps
  | Lit char
  | ILit char
  | Cls "char \<Rightarrow> bool"
  | Seq rx rx
  | Alt rx rx
  | Opt rx
  | Star rx
  | Plus rx
  | Grp nat rx
  | WordB
  | Dollar

text \<open>
  A position of the matcher in the subject: the characters before it (the nearest first),
  the characters after it, and the groups captured so far (the latest first).
\<close>

record mstate =
  ms_before :: string
  ms_after :: string
  ms_groups :: "(nat \<times> string) list"

definition advance :: "mstate \<Rightarrow> (char \<Rightarrow> bool) \<Rightarrow> mstate list" where
  "advance st p =
     (case ms_after st of
        [] \<Rightarrow> []
      | c # cs \<Rightarrow> if p c then [st\<lparr>ms_before := c # ms_before st, ms_after := cs\<rparr>] else [])"

definition consumed :: "mstate \<Rightarrow> mstate \<Rightarrow> string" where
  "consumed st st' = take (length (ms_after st) - length (ms_after st')) (ms_after st)"

text \<open>
  The iterations of a greedy repetition: one more iteration first, then stopping here.
  An iteration has to consume a character, so the length of the rest bounds their number.
\<close>

fun star_iter :: "(mstate \<Rightarrow> mstate list) \<Rightarrow> nat \<Rightarrow> mstate \<Rightarrow> mstate list" where
  "star_iter step 0 st = [st]"
| "star_iter step (Suc n) st =
     concat (map (star_iter step n)
               (filter (\<lambda>st'. length (ms_after st') < length (ms_after st)) (step st))) @ [st]"

text \<open>\<open>\b\<close>: exactly one of the characters before and after the position is a word
  character (the ends of the subject count as non-word).\<close>

definition at_boundary :: "mstate \<Rightarrow> bool" where
  "at_boundary st =
     ((case ms_before st of [] \<Rightarrow> False | c # cs \<Rightarrow> is_word c)
      \<noteq> (case ms_after st of [] \<Rightarrow> False | c # cs \<Rightarrow> is_word c))"

text \<open>
  \<open>matches r st\<close> lists the positions at which a match of \<open>r\<close> that starts at \<open>st\<close> can
  end, in the order in which the backtracking matcher tries them: its head is the match
  that \<open>re\<close> reports. \<open>$\<close> matches at the end of the subject and before a final newline.
\<close>

primrec matches :: "rx \<Rightarrow> mstate \<Rightarrow> mstate list" where
  "matches Eps st = [st]"
| "matches (Lit c) st = advance st (\<lambda>x. x = c)"
| "matches (ILit c) st = advance st (\<lambda>x. lower_char x = lower_char c)"
| "matches (Cls p) st = advance st p"
| "matches (Seq r s) st = concat (map (matches s) (matches r st))"
| "matches (Alt r s) st = matches r st @ matches s st"
| "matches (Opt r) st = matches r st @ [st]"
| "matches (Star r) st = star_iter (matches r) (length (ms_after st)) st"
| "matches (Plus r) st =
     concat (map (\<lambda>st'. star_iter (matches r) (length (ms_after st')) st') (matches r st))"
| "matches (Grp n r) st =
     map (\<lambda>st'. st'\<lparr>ms_groups := (n, consumed st st') # ms_groups st'\<rparr>) (matches r st)"
| "matches WordB st = (if at_boundary st then [st] else [])"
| "matches Dollar st = (if ms_after st = [] \<or> ms_after st = [CHR 0x0A] then [st] else [])"

record rmatch =
  m_whole :: string
  m_groups :: "(nat \<times> string) list"

definition match_at :: "rx \<Rightarrow> string \<Rightarrow> string \<Rightarrow> rmatch option" where
  "match_at r seen rest =
     (case matches r \<lparr>ms_before = seen, ms_after = rest, ms_groups = []\<rparr> of
        [] \<Rightarrow> None
      | st # sts \<Rightarrow>
          Some \<lparr>m_whole = take (length rest - length (ms_after st)) rest,
                m_groups = ms_groups st\<rparr>)"

text \<open>\<open>re.search\<close>: the match at the leftmost position that has one.\<close>

fun search_from :: "rx \<Rightarrow> string \<Rightarrow> string \<Rightarrow> rmatch option" where
  "search_from r seen [] = match_at r seen []"
| "search_from r seen (c # cs) =
     (case match_at r seen (c # cs) of
        Some m \<Rightarrow> Some m
      | None \<Rightarrow> search_from r (c # seen) cs)"

definition re_search :: "rx \<Rightarrow> string \<Rightarrow> rmatch option" where
  "re_search r s = search_from r [] s"

text \<open>\<open>m.group(1)\<close>; group 1 takes part in every match of the patterns below.\<close>

definition group1 :: "rmatch \<Rightarrow> string" where
  "group1 m = (case map_of (m_groups m) 1 of None \<Rightarrow> [] | Some g \<Rightarrow> g)"

text \<open>\<open>re.sub(pattern, "", s)\<close>: the matches are removed from left to right, each found
  from the end of the one before.\<close>

function sub_from :: "rx \<Rightarrow> string \<Rightarrow> string \<Rightarrow> string" where
  "sub_from r seen [] = []"
| "sub_from r seen (c # cs) =
     (case match_at r seen (c # cs) of
        None \<Rightarrow> c # sub_from r (c # seen) cs
      | Some m \<Rightarrow>
          (let n = length (m_whole m) in
           if n = 0 then c # sub_from r (c # seen) cs
           else sub_from r (rev (take n (c # cs)) @ seen) (drop n (c # cs))))"
  by pat_completeness auto
termination
  by (relation "measure (\<lambda>(r, seen, rest). length rest)") auto

definition re_sub_empty :: "rx \<Rightarrow> string \<Rightarrow> string" where
  "re_sub_empty r s = sub_from r [] s"

fun lits :: "(char \<Rightarrow> rx) \<Rightarrow> string \<Rightarrow> rx" where
  "lits f [] = Eps"
| "lits f [c] = f c"
| "lits f (c # cs) = Seq (f c) (lits f cs)"

section \<open>query\_parser.py: QueryParser\<close>

text \<open>
  The class \<open>[\w\s\<dots>.&-]\<close> of the buyer and supplier patterns, under
  \<open>re.IGNORECASE\<close>: word characters, white space, the six accented letters (code points
  E1, E9, ED, F3, FA, F1) in either case, and the three punctuation characters.
\<close>

definition name_char :: "char \<Rightarrow> bool" where
  "name_char c =
     (is_word c \<or> is_space c \<or>
      lower_char c \<in> set ([CHR 0xE1, CHR 0xE9, CHR 0xED, CHR 0xF3, CHR 0xFA, CHR 0xF1] @ ''.&-''))"

text \<open>\<open>(19|20)\d{2}\<close>\<close>

definition year_rx :: rx where
  "year_rx = Seq (Grp 1 (Alt (lits Lit ''19'') (lits Lit ''20'')))
               (Seq (Cls is_decimal) (Cls is_decimal))"

text \<open>\<open>entidad\s+([\w\s\<dots>.&-]+)\<close> with \<open>re.IGNORECASE\<close>\<close>

definition buyer_rx :: rx where
  "buyer_rx = Seq (lits ILit ''entidad'') (Seq (Plus (Cls is_space)) (Grp 1 (Plus (Cls name_char))))"

text \<open>\<open>proveedor(?:a)?\s+([\w\s\<dots>.&-]+)\<close> with \<open>re.IGNORECASE\<close>\<close>

definition supplier_rx :: rx where
  "supplier_rx =
     Seq (lits ILit ''proveedor'')
       (Seq (Opt (ILit CHR ''a'')) (Seq (Plus (Cls is_space)) (Grp 1 (Plus (Cls name_char)))))"

text \<open>\<open>(?:\b(?:19|20)\d{2})$\<close>\<close>

definition trailing_year_rx :: rx where
  "trailing_year_rx =
     Seq WordB (Seq (Alt (lits Lit ''19'') (lits Lit ''20''))
       (Seq (Cls is_decimal) (Seq (Cls is_decimal) Dollar)))"

text \<open>\<open>mayor(?: a)?\s+\$?(\d+[\d.,]*)\<close>\<close>

definition amount_rx :: rx where
  "amount_rx =
     Seq (lits Lit ''mayor'')
       (Seq (Opt (lits Lit '' a''))
          (Seq (Plus (Cls is_space))
             (Seq (Opt (Lit CHR ''$''))
                (Grp 1 (Seq (Plus (Cls is_decimal))
                          (Star (Cls (\<lambda>c. is_decimal c \<or> c = CHR ''.'' \<or> c = CHR '',''))))))))"

text \<open>\<open>(?:top|primer[oa]s?)\s+(\d+)\<close>\<close>

definition limit_rx :: rx where
  "limit_rx =
     Seq (Alt (lits Lit ''top'')
            (Seq (lits Lit ''primer'')
               (Seq (Cls (\<lambda>c. c = CHR ''o'' \<or> c = CHR ''a'')) (Opt (Lit CHR ''s'')))))
       (Seq (Plus (Cls is_space)) (Grp 1 (Plus (Cls is_decimal))))"


record 'f gemini_response =
  gr_entity :: "'f pyval"
  gr_filters :: "(string \<times> 'f pyval) list"
  gr_metrics :: "'f pyval list"
  gr_limit :: "pyint option"

text \<open>\<open>_build_prompt\<close>\<close>

definition instructions :: string where
  "instructions =
     ''You are a query understanding system for the Colombian SECOP open '' @
     ''data portal. Convert the user request into JSON with keys '' @ [squote] @ ''entity'' @
     [squote] @ '', '' @ [squote] @ ''filters'' @ [squote] @ '', '' @ [squote] @ ''metrics'' @
     [squote] @ '', and optionally '' @ [squote] @ ''limit'' @ [squote] @
     '' (a positive integer). '' @
     ''Filters must be a JSON object with simple key/value pairs or lists.''"

definition build_prompt :: "'f pylib \<Rightarrow> string \<Rightarrow> string" where
  "build_prompt lib qtext =
     instructions @ [CHR 0x0A] @ ''Input: '' @ qtext @ [CHR 0x0A] @
     ''Respond with JSON like: '' @
     json_enc lib False
       (PDict [(''entity'', PStr ''contracts''),
               (''filters'', PDict [(''buyer'', PStr (''Bogot'' @ [CHR 0xE1])),
                                    (''year'', PInt 2023)]),
               (''metrics'', PList [PStr ''total_amount'']),
               (''limit'', PInt 20)])"

text \<open>\<open>v or d\<close>\<close>

definition or_else :: "'f pylib \<Rightarrow> 'f pyval \<Rightarrow> 'f pyval \<Rightarrow> 'f pyval" where
  "or_else lib v d = (if truthy lib v then v else d)"

text \<open>
  \<open>_coerce_response\<close>, the validation of \<open>limit\<close>. A \<open>bool\<close> is an instance of
  \<open>int\<close>, so \<open>True\<close> passes the first test and is kept as it is.
\<close>

definition coerce_limit :: "'f pyval \<Rightarrow> pyerror + pyint option" where
  "coerce_limit limit_value =
     (case limit_value of
        PInt n \<Rightarrow> Inr (if int_value (IntObj n) > 0 then Some (IntObj n) else None)
      | PBool b \<Rightarrow> Inr (if int_value (BoolObj b) > 0 then Some (BoolObj b) else None)
      | PStr s \<Rightarrow>
          if isdigit s
          then (case py_int s of
                  Inl err \<Rightarrow> Inl err
                | Inr parsed_limit \<Rightarrow>
                    Inr (if parsed_limit > 0 then Some (IntObj parsed_limit) else None))
          else Inr None
      | _ \<Rightarrow> Inr None)"

text \<open>\<open>_coerce_response\<close> from \<open>payload.get("entity")\<close> on; \<open>payload.get\<close> raises
  \<open>AttributeError\<close> when the payload is not a dictionary.\<close>

definition coerce_payload :: "'f pylib \<Rightarrow> 'f pyval \<Rightarrow> pyerror + 'f gemini_response option" where
  "coerce_payload lib payload =
     (case payload of
        PDict d \<Rightarrow>
          (let entity = dict_get d ''entity'';
               filters = or_else lib (dict_get d ''filters'') (PDict []);
               metrics = or_else lib (dict_get d ''metrics'') (PList []);
               limit_value = dict_get d ''limit''
           in case coerce_limit limit_value of
                Inl err \<Rightarrow> Inl err
              | Inr limit \<Rightarrow>
                  (case (filters, iter_elems metrics) of
                     (PDict fs, Some ms) \<Rightarrow>
                       Inr (Some \<lparr>gr_entity = entity, gr_filters = fs, gr_metrics = ms,
                                  gr_limit = limit\<rparr>)
                   | _ \<Rightarrow> Inr None))
      | _ \<Rightarrow> Inl AttributeError)"

definition coerce_response :: "'f pylib \<Rightarrow> 'f pyval \<Rightarrow> pyerror + 'f gemini_response option" where
  "coerce_response lib raw_response =
     (case raw_response of
        PNone \<Rightarrow> Inr None
      | PStr s \<Rightarrow>
          (case json_loads lib s of
             None \<Rightarrow> Inr None
           | Some payload \<Rightarrow> coerce_payload lib payload)
      | PDict d \<Rightarrow> coerce_payload lib (PDict d)
      | _ \<Rightarrow> Inr None)"

text \<open>\<open>_heuristic_parse\<close>, step by step: the entity, the four filters, the metrics and
  the limit.\<close>

definition detect_entity :: "string \<Rightarrow> string" where
  "detect_entity lowered =
     (if contains ''proveedor'' lowered \<or> contains ''supplier'' lowered then ''suppliers''
      else if contains ''entidad'' lowered \<or> contains ''agency'' lowered then ''agencies''
      else ''contracts'')"

definition year_filter ::
  "string \<Rightarrow> (string \<times> 'f pyval) list \<Rightarrow> pyerror + (string \<times> 'f pyval) list" where
  "year_filter lowered filters =
     (case re_search year_rx lowered of
        None \<Rightarrow> Inr filters
      | Some year_match \<Rightarrow>
          (case py_int (m_whole year_match) of
             Inl err \<Rightarrow> Inl err
           | Inr year \<Rightarrow> Inr (AList.update ''year'' (PInt year) filters)))"

definition buyer_filter :: "string \<Rightarrow> (string \<times> 'f pyval) list \<Rightarrow> (string \<times> 'f pyval) list" where
  "buyer_filter qtext filters =
     (case re_search buyer_rx qtext of
        None \<Rightarrow> filters
      | Some buyer_match \<Rightarrow> AList.update ''buyer'' (PStr (strip (group1 buyer_match))) filters)"

definition supplier_filter :: "string \<Rightarrow> (string \<times> 'f pyval) list \<Rightarrow> (string \<times> 'f pyval) list" where
  "supplier_filter qtext filters =
     (case re_search supplier_rx qtext of
        None \<Rightarrow> filters
      | Some supplier_match \<Rightarrow>
          (let supplier = strip (group1 supplier_match);
               supplier = strip_chars '' ,.-'' (re_sub_empty trailing_year_rx supplier)
           in if supplier \<noteq> [] then AList.update ''supplier'' (PStr supplier) filters
              else filters))"

definition amount_filter ::
  "'f pylib \<Rightarrow> string \<Rightarrow> (string \<times> 'f pyval) list \<Rightarrow> (string \<times> 'f pyval) list" where
  "amount_filter lib lowered filters =
     (case re_search amount_rx lowered of
        None \<Rightarrow> filters
      | Some amount_match \<Rightarrow>
          (let amount = replace_char CHR '','' [] (replace_char CHR ''.'' [] (group1 amount_match))
           in case float_of_str lib amount of
                None \<Rightarrow> filters
              | Some x \<Rightarrow> AList.update ''min_amount'' (PFloat x) filters))"

definition detect_metrics :: "string \<Rightarrow> 'f pyval list" where
  "detect_metrics lowered =
     (if contains (''cu'' @ [CHR 0xE1] @ ''nto'') lowered \<or> contains ''total'' lowered \<or>
         contains ''sum'' lowered
      then [PStr ''total_amount''] else [])"

definition detect_limit :: "string \<Rightarrow> pyint option" where
  "detect_limit lowered =
     (case re_search limit_rx lowered of
        None \<Rightarrow> None
      | Some limit_match \<Rightarrow>
          (case py_int (group1 limit_match) of
             Inl err \<Rightarrow> None
           | Inr parsed_limit \<Rightarrow> if parsed_limit > 0 then Some (IntObj parsed_limit) else None))"

definition heuristic_parse :: "'f pylib \<Rightarrow> string \<Rightarrow> pyerror + 'f gemini_response" where
  "heuristic_parse lib qtext =
     (let lowered = lower qtext;
          entity = detect_entity lowered
      in case year_filter lowered [] of
           Inl err \<Rightarrow> Inl err
         | Inr filters \<Rightarrow>
             (let filters = buyer_filter qtext filters;
                  filters = supplier_filter qtext filters;
                  filters = amount_filter lib lowered filters;
                  metrics = detect_metrics lowered;
                  limit = detect_limit lowered
              in Inr \<lparr>gr_entity = PStr entity, gr_filters = filters, gr_metrics = metrics,
                       gr_limit = limit\<rparr>))"

text \<open>\<open>QueryParams.as_dict\<close> and \<open>to_json\<close>\<close>

definition as_dict :: "'f query_params \<Rightarrow> 'f pyval" where
  "as_dict self =
     PDict [(''entity'', PStr (qp_entity self)),
            (''filters'', PDict (qp_filters self)),
            (''metrics'', PList (qp_metrics self)),
            (''raw_query'', PStr (qp_raw_query self)),
            (''limit'', (case qp_limit self of None \<Rightarrow> PNone | Some l \<Rightarrow> int_obj l))]"

definition to_json :: "'f pylib \<Rightarrow> 'f query_params \<Rightarrow> pyerror + string" where
  "to_json lib self = json_dumps lib False (as_dict self)"

text \<open>
  \<open>parse\<close>. The language-model client is given by what \<open>generate(prompt)\<close> does: it
  raises or returns an object. \<open>llm_response\<close> is the value of \<open>response\<close> before the test
  \<open>response is None\<close>; the argument \<open>params.to_json()\<close> of the last log call is evaluated,
  so its exception is \<open>parse\<close>'s.
\<close>

definition llm_response ::
  "'f pylib \<Rightarrow> (string \<Rightarrow> pyerror + 'f pyval) option \<Rightarrow> string \<Rightarrow> 'f gemini_response option" where
  "llm_response lib llm_client qtext =
     (case llm_client of
        None \<Rightarrow> None
      | Some generate \<Rightarrow>
          (case generate (build_prompt lib qtext) of
             Inl exc \<Rightarrow> None
           | Inr raw_response \<Rightarrow>
               (case coerce_response lib raw_response of
                  Inl exc \<Rightarrow> None
                | Inr response \<Rightarrow> response)))"

definition parse ::
  "'f pylib \<Rightarrow> (string \<Rightarrow> pyerror + 'f pyval) option \<Rightarrow> string \<Rightarrow> pyerror + 'f query_params" where
  "parse lib llm_client qtext =
     (case (case llm_response lib llm_client qtext of
              None \<Rightarrow> heuristic_parse lib qtext
            | Some response \<Rightarrow> Inr response) of
        Inl err \<Rightarrow> Inl err
      | Inr response \<Rightarrow>
          (case QueryParams lib (or_else lib (gr_entity response) (PStr ''contracts''))
                  (gr_filters response) (gr_metrics response) qtext (gr_limit response) of
             Inl err \<Rightarrow> Inl err
           | Inr params \<Rightarrow>
               (case to_json lib params of
                  Inl err \<Rightarrow> Inl err
                | Inr text \<Rightarrow> Inr params)))"



section \<open>Notions used in the statements\<close>

text \<open>
  An instance of the library for evaluating the model on concrete inputs: the floats are
  those with an integral value, and \<open>json.loads\<close> is cut down to the texts \<open>[]\<close>,
  \<open>{}\<close> and \<open>{"entity": 5}\<close>, every other text counting as not JSON.
\<close>

definition lib0 :: "int pylib" where
  "lib0 = \<lparr>json_loads = (\<lambda>s. if s = ''[]'' then Some (PList [])
                             else if s = ''{}'' then Some (PDict [])
                             else if s = ''{'' @ [dquote] @ ''entity'' @ [dquote] @ '': 5}''
                             then Some (PDict [(''entity'', PInt 5)])
                             else None),
           float_of_str = (\<lambda>s. case py_int s of Inl e \<Rightarrow> None | Inr n \<Rightarrow> Some n),
           float_repr = (\<lambda>x. str_int x @ ''.0''),
           float_json = (\<lambda>x. str_int x @ ''.0''),
           float_bool = (\<lambda>x. x \<noteq> 0),
           float_one = 1, float_zero = 0,
           float_sub = (\<lambda>x y. x - y)\<rparr>"

text \<open>A resolved entity carries a dataset identifier when its metadata binds
  \<open>dataset_id\<close> to a true value (a non-empty string, for instance).\<close>

definition carries_dataset_id :: "'f pylib \<Rightarrow> 'f resolved_entity option \<Rightarrow> bool" where
  "carries_dataset_id lib entity =
     (case entity of
        None \<Rightarrow> False
      | Some e \<Rightarrow> (case map_of (re_metadata e) ''dataset_id'' of
                     None \<Rightarrow> False | Some v \<Rightarrow> truthy lib v))"

text \<open>The values for which \<open>_render_filter\<close> falls through to its last line: not a
  number, not a string, not iterable.\<close>

definition uses_json_fallback :: "'f pyval \<Rightarrow> bool" where
  "uses_json_fallback v =
     (\<not> is_number v \<and> (case v of PStr s \<Rightarrow> False | _ \<Rightarrow> True) \<and> iter_elems v = None)"


text \<open>
  Equality of values as contents: two dictionaries are the same when they have the same
  keys and the same values under them, whatever the insertion order, also inside lists
  and inside the values of dictionaries.
\<close>

inductive same_value :: "'f pyval \<Rightarrow> 'f pyval \<Rightarrow> bool" where
  same_refl: "same_value v v"
| same_list: "list_all2 same_value xs ys \<Longrightarrow> same_value (PList xs) (PList ys)"
| same_tuple: "list_all2 same_value xs ys \<Longrightarrow> same_value (PTuple xs) (PTuple ys)"
| same_dict:
    "distinct (map fst xs) \<Longrightarrow> distinct (map fst ys) \<Longrightarrow>
     (\<forall>k. rel_option same_value (map_of xs k) (map_of ys k)) \<Longrightarrow>
     same_value (PDict xs) (PDict ys)"
  monos list_all2_mono option.rel_mono_strong

text \<open>A pattern that ends with the capturing group \<open>n\<close>.\<close>

fun ends_with_group :: "nat \<Rightarrow> rx \<Rightarrow> bool" where
  "ends_with_group n (Grp k r) = (k = n)"
| "ends_with_group n (Seq r s) = ends_with_group n s"
| "ends_with_group n r = False"

text \<open>
  The outputs of a language model that the parser does not use. The shape is wrong when
  the decoded payload is not a dictionary, its \<open>filters\<close> is not a dictionary or its
  \<open>metrics\<close> is not iterable; an output is unusable when it is \<open>None\<close>, a text that is
  not JSON, a text or dictionary of the wrong shape, or an object of another type; the
  model is unavailable when no client is configured, the client raises, or its output is
  unusable.
\<close>

definition wrong_shape :: "'f pylib \<Rightarrow> 'f pyval \<Rightarrow> bool" where
  "wrong_shape lib payload =
     (case payload of
        PDict d \<Rightarrow>
          (case or_else lib (dict_get d ''filters'') (PDict []) of PDict fs \<Rightarrow> False | _ \<Rightarrow> True) \<or>
          iter_elems (or_else lib (dict_get d ''metrics'') (PList [])) = None
      | _ \<Rightarrow> True)"

definition unusable_output :: "'f pylib \<Rightarrow> 'f pyval \<Rightarrow> bool" where
  "unusable_output lib raw =
     (case raw of
        PStr s \<Rightarrow> (case json_loads lib s of None \<Rightarrow> True | Some payload \<Rightarrow> wrong_shape lib payload)
      | PDict d \<Rightarrow> wrong_shape lib (PDict d)
      | _ \<Rightarrow> True)"

definition llm_unavailable ::
  "'f pylib \<Rightarrow> (string \<Rightarrow> pyerror + 'f pyval) option \<Rightarrow> string \<Rightarrow> bool" where
  "llm_unavailable lib llm_client qtext =
     (case llm_client of
        None \<Rightarrow> True
      | Some generate \<Rightarrow>
          (case generate (build_prompt lib qtext) of
             Inl exc \<Rightarrow> True
           | Inr raw \<Rightarrow> unusable_output lib raw))"

section \<open>Properties\<close>

subsection \<open>QueryParams validation\<close>

lemma strip_by_empty: "(strip_by p s = []) = list_all p s"
proof -
  have "(\<forall>x\<in>set (dropWhile p s). p x) = (\<forall>x\<in>set s. p x)"
  proof
    assume a: "\<forall>x\<in>set (dropWhile p s). p x"
    have "dropWhile p s = []"
    proof (rule ccontr)
      assume n: "dropWhile p s \<noteq> []"
      then have "\<not> p (hd (dropWhile p s))" by (rule hd_dropWhile)
      moreover have "hd (dropWhile p s) \<in> set (dropWhile p s)" using n by simp
      ultimately show False using a by blast
    qed
    then show "\<forall>x\<in>set s. p x" by (simp add: dropWhile_eq_Nil_conv)
  next
    assume "\<forall>x\<in>set s. p x"
    then show "\<forall>x\<in>set (dropWhile p s). p x" by (auto dest: set_dropWhileD)
  qed
  then show ?thesis
    by (simp add: strip_by_def dropWhile_eq_Nil_conv list_all_iff)
qed

text \<open>
  C9. Constructing a \<open>QueryParams\<close> whose entity is empty or only white space, or whose
  limit is present and not greater than zero, fails with the validation error (Python's
  \<open>ValueError\<close>); with an entity that has a non-blank character and a limit that is absent
  or positive, the construction succeeds and stores the arguments unchanged.
\<close>

theorem QueryParams_validation:
  "QueryParams lib (PStr e) fs ms rq lim =
     (if list_all is_space e then Inl (ValueError ''entity must be a non-empty string'')
      else if (\<exists>l. lim = Some l \<and> int_value l \<le> 0)
      then Inl (ValueError ''limit must be a positive integer when provided'')
      else Inr \<lparr>qp_entity = e, qp_filters = fs, qp_metrics = ms, qp_raw_query = rq,
                qp_limit = lim\<rparr>)"
proof -
  have "(strip e = []) = list_all is_space e"
    by (simp add: strip_def strip_by_empty)
  moreover have "e = [] \<longrightarrow> list_all is_space e" by simp
  ultimately show ?thesis
    by (cases lim) (auto simp: QueryParams_def)
qed

theorem QueryParams_validation_witness:
  "QueryParams lib0 (PStr [CHR '' '', CHR 0x09]) [] [] [] None
     = Inl (ValueError ''entity must be a non-empty string'') \<and>
   QueryParams lib0 (PStr ''contracts'') [] [] [] (Some (IntObj 0))
     = Inl (ValueError ''limit must be a positive integer when provided'') \<and>
   QueryParams lib0 (PStr ''contracts'') [] [] [] (Some (IntObj 10))
     = Inr \<lparr>qp_entity = ''contracts'', qp_filters = [], qp_metrics = [], qp_raw_query = [],
            qp_limit = Some (IntObj 10)\<rparr>"
  using QueryParams_validation [of lib0 "[CHR '' '', CHR 0x09]" "[]" "[]" "[]" None]
    QueryParams_validation [of lib0 "''contracts''" "[]" "[]" "[]" "Some (IntObj 0)"]
    QueryParams_validation [of lib0 "''contracts''" "[]" "[]" "[]" "Some (IntObj 10)"]
  by (simp add: is_space_def code_def)

subsection \<open>SoQLBuilder\<close>

lemma render_filter_nonempty: "render_filter lib k v \<noteq> []"
  by (cases v) (auto simp: render_filter_def)

lemma build_where_join:
  "build_where lib filters = join '' AND '' (map (\<lambda>(k, v). render_filter lib k v) filters)"
proof -
  have "filter (\<lambda>c. c \<noteq> []) (map (\<lambda>(k, v). render_filter lib k v) filters)
        = map (\<lambda>(k, v). render_filter lib k v) filters"
    by (rule filter_True) (auto simp: render_filter_nonempty)
  then show ?thesis
    by (simp add: build_where_def)
qed

text \<open>
  C5, as the code has it. A number (a \<open>bool\<close> included) is rendered as \<open>key = value\<close>;
  a string as \<open>upper(key) LIKE upper('%v%')\<close> with every single quote doubled; a list,
  a tuple or a set as \<open>key IN (v1, v2, \<dots>)\<close> over its elements and a dictionary as
  \<open>key IN (\<dots>)\<close> over its keys, each element written by \<open>_quote\<close> (a number by
  \<open>str\<close>, anything else as \<open>str\<close> of it between single quotes, with single quotes
  doubled); only \<open>None\<close> is rendered as \<open>key = \<close> followed by its JSON text. The clauses
  are joined with \<open> AND \<close>.
\<close>

theorem render_filter_by_kind:
  "render_filter lib key (PInt n) = key @ '' = '' @ str_int n \<and>
   render_filter lib key (PBool b) = key @ '' = '' @ (if b then ''True'' else ''False'') \<and>
   render_filter lib key (PFloat x) = key @ '' = '' @ float_repr lib x \<and>
   render_filter lib key (PStr s) =
     ''upper('' @ key @ '') LIKE upper('' @ [squote] @ ''%'' @
       concat (map (\<lambda>c. if c = squote then [squote, squote] else [c]) s) @ ''%'' @ [squote] @ '')'' \<and>
   render_filter lib key (PList vs) = key @ '' IN ('' @ join '', '' (map (quote lib) vs) @ '')'' \<and>
   render_filter lib key (PTuple vs) = key @ '' IN ('' @ join '', '' (map (quote lib) vs) @ '')'' \<and>
   render_filter lib key (PSet vs) = key @ '' IN ('' @ join '', '' (map (quote lib) vs) @ '')'' \<and>
   render_filter lib key (PDict kvs) =
     key @ '' IN ('' @ join '', '' (map (\<lambda>(k, v). quote lib (PStr k)) kvs) @ '')'' \<and>
   render_filter lib key PNone = key @ '' = null'' \<and>
   quote lib v =
     (if is_number v then py_str lib v
      else [squote] @ concat (map (\<lambda>c. if c = squote then [squote, squote] else [c]) (py_str lib v)) @ [squote]) \<and>
   build_where lib filters =
     join '' AND '' (map (\<lambda>(k, v). render_filter lib k v) filters)"
  by (simp add: render_filter_def quote_def py_str_def replace_char_def build_where_join
      comp_def case_prod_unfold)

text \<open>
  C5 as stated fails on a dictionary: the filter \<open>k\<close> with value \<open>{"a": 1}\<close> is rendered
  as \<open>k IN ('a')\<close>, not as \<open>k = {"a": 1}\<close>.
\<close>

theorem render_filter_dict_counterexample:
  "render_filter lib0 ''k'' (PDict [(''a'', PInt 1)]) = ''k IN ('' @ [squote] @ ''a'' @ [squote] @ '')'' \<and>
   json_enc lib0 False (PDict [(''a'', PInt 1)]) = ''{'' @ [dquote] @ ''a'' @ [dquote] @ '': 1}'' \<and>
   render_filter lib0 ''k'' (PDict [(''a'', PInt 1)])
     \<noteq> ''k = '' @ json_enc lib0 False (PDict [(''a'', PInt 1)])"
  by code_simp

text \<open>
  C10. A filter value that is neither a number nor a string and is iterable is rendered as
  the membership clause over the elements that iterating it yields: a set and a tuple like
  a list, a dictionary by its keys. The JSON rendering is reached for \<open>None\<close> only.
\<close>

theorem iterable_filter_is_membership:
  "(\<not> is_number v \<and> (\<forall>s. v \<noteq> PStr s) \<longrightarrow>
      (case iter_elems v of
         Some vs \<Rightarrow>
           render_filter lib key v = key @ '' IN ('' @ join '', '' (map (quote lib) vs) @ '')''
       | None \<Rightarrow> v = PNone \<and> render_filter lib key v = key @ '' = '' @ json_enc lib False v)) \<and>
   render_filter lib key (PSet xs) = key @ '' IN ('' @ join '', '' (map (quote lib) xs) @ '')'' \<and>
   render_filter lib key (PDict kvs) =
     key @ '' IN ('' @ join '', '' (map (\<lambda>(k, v). quote lib (PStr k)) kvs) @ '')'' \<and>
   uses_json_fallback v = (v = PNone)"
  by (cases v) (auto simp: render_filter_def uses_json_fallback_def comp_def case_prod_unfold)

theorem iterable_filter_is_membership_witness:
  "render_filter lib0 ''k'' (PSet [PInt 1, PStr ''a'']) = ''k IN (1, '' @ [squote] @ ''a'' @ [squote] @ '')'' \<and>
   render_filter lib0 ''k'' (PDict [(''a'', PInt 1), (''b'', PNone)])
     = ''k IN ('' @ [squote] @ ''a'' @ [squote] @ '', '' @ [squote] @ ''b'' @ [squote] @ '')'' \<and>
   render_filter lib0 ''k'' PNone = ''k = null''"
  using iterable_filter_is_membership [of "PSet [PInt 1, PStr ''a'']" lib0 "''k''"]
    iterable_filter_is_membership [of "PNone" lib0 "''k''" "[]" "[(''a'', PInt 1), (''b'', PNone)]"]
  by (simp add: quote_def py_str_def replace_char_def squote_def str_int_def)

text \<open>
  C6. \<open>build\<close> takes the dataset identifier from the metadata of the resolved entity
  when an entity is given and carries one; otherwise from the static table, looked up by
  the entity name; otherwise it is the entity name itself. \<open>build\<close> returns that
  identifier whenever it returns (it fails only when a metric is not a string).
\<close>

theorem dataset_precedence:
  "(carries_dataset_id lib entity \<longrightarrow>
      (\<exists>e v. entity = Some e \<and> map_of (re_metadata e) ''dataset_id'' = Some v \<and>
         resolve_dataset lib dataset_map params entity = v)) \<and>
   (\<not> carries_dataset_id lib entity \<longrightarrow>
      resolve_dataset lib dataset_map params entity =
        PStr (case map_of dataset_map (qp_entity params) of
                Some d \<Rightarrow> d | None \<Rightarrow> qp_entity params)) \<and>
   (the_strs (qp_metrics params) \<noteq> None \<longrightarrow>
      (\<exists>ps. build lib dataset_map params entity =
         Inr \<lparr>sp_dataset = resolve_dataset lib dataset_map params entity, sp_params = ps\<rparr>))"
  by (auto simp: carries_dataset_id_def resolve_dataset_def dict_get_def build_def py_join_def
      Let_def split: option.splits)

theorem dataset_precedence_witness:
  "carries_dataset_id lib0
     (Some \<lparr>re_name = ''Contracts'', re_score = 1,
            re_metadata = [(''dataset_id'', PStr ''secop-123'')]\<rparr>) \<and>
   resolve_dataset lib0 [(''contracts'', ''default-dataset'')]
     \<lparr>qp_entity = ''contracts'', qp_filters = [], qp_metrics = [], qp_raw_query = [],
      qp_limit = None\<rparr>
     (Some \<lparr>re_name = ''Contracts'', re_score = 1,
            re_metadata = [(''dataset_id'', PStr ''secop-123'')]\<rparr>) = PStr ''secop-123'' \<and>
   \<not> carries_dataset_id lib0 None \<and>
   resolve_dataset lib0 [(''contracts'', ''default-dataset'')]
     \<lparr>qp_entity = ''contracts'', qp_filters = [], qp_metrics = [], qp_raw_query = [],
      qp_limit = None\<rparr> None = PStr ''default-dataset'' \<and>
   build lib0 [(''contracts'', ''default-dataset'')]
     \<lparr>qp_entity = ''contracts'', qp_filters = [], qp_metrics = [], qp_raw_query = [],
      qp_limit = None\<rparr>
     (Some \<lparr>re_name = ''Contracts'', re_score = 1,
            re_metadata = [(''dataset_id'', PStr ''secop-123'')]\<rparr>)
     = Inr \<lparr>sp_dataset = PStr ''secop-123'', sp_params = []\<rparr>"
  using dataset_precedence [of lib0
      "Some \<lparr>re_name = ''Contracts'', re_score = 1,
             re_metadata = [(''dataset_id'', PStr ''secop-123'')]\<rparr>"
      "[(''contracts'', ''default-dataset'')]"
      "\<lparr>qp_entity = ''contracts'', qp_filters = [], qp_metrics = [], qp_raw_query = [],
        qp_limit = None\<rparr>"]
    dataset_precedence [of lib0 None "[(''contracts'', ''default-dataset'')]"
      "\<lparr>qp_entity = ''contracts'', qp_filters = [], qp_metrics = [], qp_raw_query = [],
        qp_limit = None\<rparr>"]
  by (simp add: carries_dataset_id_def build_def build_where_def Let_def)

subsection \<open>EntityResolver\<close>

lemma rerank_nonempty: "candidates \<noteq> [] \<Longrightarrow> rerank_with_cohere self mention candidates \<noteq> []"
  by (auto simp: rerank_with_cohere_def Let_def split: option.splits sum.splits)

lemma search_chroma_nonempty: "search_chroma lib self mention top_k \<noteq> []"
  by (auto simp: search_chroma_def Let_def split: option.splits sum.splits)

lemma resolve_total: "\<exists>e. resolve lib self mention top_k = Inr (Some e)"
  using rerank_nonempty [of "search_chroma lib self mention top_k" self mention]
    search_chroma_nonempty [of lib self mention top_k]
  by (auto simp: resolve_def Let_def split: list.splits)

text \<open>
  C8. With no similarity-search client, \<open>resolve\<close> returns, for every mention and every
  \<open>top_k\<close>, the entity named by the mention, with score \<open>1.0\<close> and empty metadata.
\<close>

theorem resolve_without_index:
  "er_chroma_client self = None \<Longrightarrow>
   resolve lib self mention top_k =
     Inr (Some \<lparr>re_name = mention, re_score = float_one lib, re_metadata = []\<rparr>)"
  by (simp add: resolve_def search_chroma_def)

theorem resolve_without_index_witness:
  "resolve lib0 \<lparr>er_chroma_client = None, er_cohere_client = None, er_collection_name = ''entities''\<rparr>
     ''contracts'' 5 = Inr (Some \<lparr>re_name = ''contracts'', re_score = 1, re_metadata = []\<rparr>)"
  using resolve_without_index [of "\<lparr>er_chroma_client = None, er_cohere_client = None,
     er_collection_name = ''entities''\<rparr>" lib0 "''contracts''" 5]
  by (simp add: lib0_def)

subsection \<open>SecopClient\<close>






lemma cache_key_empty: "cache_key lib0 ''contracts'' [] = Inr ''secop:contracts:{}''"
  by (simp add: cache_key_def json_dumps_def)


text \<open>
  C2. When a cache store is configured and holds a text for the cache key of the dataset
  and the parameters, \<open>query\<close> makes no remote call (and no sleep, and no cache write);
  its result is \<open>json.loads\<close> of the cached text: that value, or the decoder's error for
  a text that is not JSON.
\<close>

theorem cache_hit_skips_remote:
  assumes "sc_redis self = Some store"
    and "cache_key lib dataset (params_or_empty params_arg) = Inr key"
    and "store key = Some cached"
  shows "qo_calls (query lib self dataset params_arg) = 0 \<and>
         qo_sleeps (query lib self dataset params_arg) = [] \<and>
         qo_setex (query lib self dataset params_arg) = [] \<and>
         qo_result (query lib self dataset params_arg) =
           (case json_loads lib cached of None \<Rightarrow> Inl JSONDecodeError | Some v \<Rightarrow> Inr v)"
  using assms by (simp add: query_def)

theorem cache_hit_skips_remote_witness:
  "qo_calls (query lib0 \<lparr>sc_client = (\<lambda>d p i. Inl (External ''unreachable'')),
                         sc_redis = Some [''secop:contracts:{}'' \<mapsto> ''[]''],
                         sc_max_retries = 3\<rparr> ''contracts'' None) = 0 \<and>
   qo_result (query lib0 \<lparr>sc_client = (\<lambda>d p i. Inl (External ''unreachable'')),
                         sc_redis = Some [''secop:contracts:{}'' \<mapsto> ''[]''],
                         sc_max_retries = 3\<rparr> ''contracts'' None) = Inr (PList [])"
  using cache_hit_skips_remote [of
      "\<lparr>sc_client = (\<lambda>d p i. Inl (External ''unreachable'')),
        sc_redis = Some [''secop:contracts:{}'' \<mapsto> ''[]''], sc_max_retries = 3\<rparr>"
      "[''secop:contracts:{}'' \<mapsto> ''[]'']" lib0 "''contracts''" None "''secop:contracts:{}''" "''[]''"]
  by (simp add: params_or_empty_def cache_key_empty) (simp add: lib0_def)

lemma filter_same_key:
  "distinct (map fst l) \<Longrightarrow> k \<in> set l \<Longrightarrow> filter (\<lambda>x. fst k = fst x) l = [k]"
proof (induction l)
  case Nil
  then show ?case by simp
next
  case (Cons a l)
  show ?case
  proof (cases "k = a")
    case True
    have "filter (\<lambda>x. fst a = fst x) l = []"
      using Cons.prems(1) by (auto simp: filter_empty_conv)
    with True show ?thesis by simp
  next
    case False
    with Cons.prems(2) have kl: "k \<in> set l" by simp
    then have "fst k \<in> set (map fst l)" by simp
    moreover have "fst a \<notin> set (map fst l)" using Cons.prems(1) by simp
    ultimately have "fst k \<noteq> fst a" by metis
    with Cons kl show ?thesis by simp
  qed
qed

lemma sort_key_fst_unique:
  assumes "distinct (map fst xs)" and "mset xs = mset ys"
  shows "sort_key fst xs = sort_key fst ys"
proof (rule properties_for_sort_key)
  show "mset (sort_key fst ys) = mset xs" using assms(2) by simp
  show "sorted (map fst (sort_key fst ys))" by simp
  have dy: "distinct (map fst (sort_key fst ys))"
  proof -
    have "mset (map fst (sort_key fst ys)) = mset (map fst xs)" using assms(2) by simp
    then show ?thesis using assms(1) by (metis mset_eq_imp_distinct_iff)
  qed
  show "filter (\<lambda>x. fst k = fst x) (sort_key fst ys) = filter (\<lambda>x. fst k = fst x) xs"
    if "k \<in> set (sort_key fst ys)" for k
  proof -
    have "k \<in> set xs" using that assms(2) by (metis mset_eq_setD set_sort)
    then show ?thesis
      using filter_same_key [OF dy that] filter_same_key [OF assms(1)] by simp
  qed
qed

lemma sort_key_map_of_unique:
  assumes "distinct (map fst xs)" and "distinct (map fst ys)" and "map_of xs = map_of ys"
  shows "sort_key fst xs = sort_key fst ys"
proof -
  have "set xs = set ys" using assms by (simp add: map_of_inject_set)
  moreover have "distinct xs" "distinct ys" using assms(1,2) by (auto simp: distinct_map)
  ultimately have "mset xs = mset ys" by (simp add: set_eq_iff_mset_eq_distinct)
  with assms(1) show ?thesis by (rule sort_key_fst_unique)
qed

lemma serialisable_dict_map_of:
  "distinct (map fst xs) \<Longrightarrow>
   list_all (\<lambda>(k, v). serialisable v) xs = (\<forall>k v. map_of xs k = Some v \<longrightarrow> serialisable v)"
  by (auto simp: list_all_iff dest: map_of_SomeD)

lemma same_value_json:
  "same_value a b \<Longrightarrow>
   serialisable a = serialisable b \<and> json_enc lib True a = json_enc lib True b"
proof (induction rule: same_value.induct)
  case (same_refl v)
  then show ?case by simp
next
  case (same_list xs ys)
  then have "list_all serialisable xs = list_all serialisable ys \<and>
             map (json_enc lib True) xs = map (json_enc lib True) ys"
    by (induction xs ys rule: list_all2_induct) auto
  then show ?case by simp
next
  case (same_tuple xs ys)
  then have "list_all serialisable xs = list_all serialisable ys \<and>
             map (json_enc lib True) xs = map (json_enc lib True) ys"
    by (induction xs ys rule: list_all2_induct) auto
  then show ?case by simp
next
  case (same_dict xs ys)
  let ?f = "\<lambda>(k, v). (k, json_enc lib True v)"
  have rel: "rel_option (\<lambda>v w. serialisable v = serialisable w \<and>
               json_enc lib True v = json_enc lib True w) (map_of xs k) (map_of ys k)" for k
    using same_dict(3) by (auto elim!: option.rel_mono_strong)
  have ser: "list_all (\<lambda>(k, v). serialisable v) xs = list_all (\<lambda>(k, v). serialisable v) ys"
    unfolding serialisable_dict_map_of [OF same_dict(1)] serialisable_dict_map_of [OF same_dict(2)]
  proof (intro iffI allI impI)
    fix k v assume h: "\<forall>k v. map_of xs k = Some v \<longrightarrow> serialisable v" "map_of ys k = Some v"
    with rel [of k] show "serialisable v" by (cases "map_of xs k") auto
  next
    fix k v assume h: "\<forall>k v. map_of ys k = Some v \<longrightarrow> serialisable v" "map_of xs k = Some v"
    with rel [of k] show "serialisable v" by (cases "map_of ys k") auto
  qed
  have m: "map_of (map ?f xs) = map_of (map ?f ys)"
  proof
    fix k
    show "map_of (map ?f xs) k = map_of (map ?f ys) k"
      using rel [of k] by (cases "map_of xs k"; cases "map_of ys k") (auto simp: map_of_map)
  qed
  have e: "map fst (map ?f l) = map fst l" for l
    by (induction l) auto
  have dx: "distinct (map fst (map ?f xs))" unfolding e by (rule same_dict(1))
  have dy: "distinct (map fst (map ?f ys))" unfolding e by (rule same_dict(2))
  from sort_key_map_of_unique [OF dx dy m] ser show ?case by simp
qed

text \<open>
  C7. The cache key is a function of the contents of the parameters: two parameter
  dictionaries with the same keys bound to the same values get the same key, whatever the
  insertion order of their items, also when the order differs inside nested dictionaries.
\<close>

theorem cache_key_order_independent:
  "(distinct (map fst xs) \<and> distinct (map fst ys) \<and> map_of xs = map_of ys \<longrightarrow>
      cache_key lib dataset xs = cache_key lib dataset ys) \<and>
   (same_value (PDict xs) (PDict ys) \<longrightarrow>
      cache_key lib dataset xs = cache_key lib dataset ys)"
proof -
  have deep: "cache_key lib dataset xs = cache_key lib dataset ys"
    if "same_value (PDict xs) (PDict ys)"
    using same_value_json [OF that, of lib]
    by (simp add: cache_key_def json_dumps_def del: json_enc.simps serialisable.simps)
  have "same_value (PDict xs) (PDict ys)"
    if "distinct (map fst xs)" "distinct (map fst ys)" "map_of xs = map_of ys"
    using that by (intro same_dict) (auto simp: option.rel_refl same_refl)
  with deep show ?thesis by blast
qed

theorem cache_key_order_independent_witness:
  "map_of [(''$where'', PStr ''year = 2024''), (''$limit'', PInt 5)]
     = map_of [(''$limit'', PInt 5), (''$where'', PStr ''year = 2024'' :: int pyval)] \<and>
   cache_key lib0 ''contracts'' [(''$where'', PStr ''year = 2024''), (''$limit'', PInt 5)]
     = cache_key lib0 ''contracts'' [(''$limit'', PInt 5), (''$where'', PStr ''year = 2024'')] \<and>
   same_value (PDict [(''a'', PDict [(''x'', PInt 1), (''y'', PInt 2)]), (''b'', PNone :: int pyval)])
     (PDict [(''b'', PNone), (''a'', PDict [(''y'', PInt 2), (''x'', PInt 1)])]) \<and>
   cache_key lib0 ''contracts'' [(''a'', PDict [(''x'', PInt 1), (''y'', PInt 2)]), (''b'', PNone)]
     = cache_key lib0 ''contracts'' [(''b'', PNone), (''a'', PDict [(''y'', PInt 2), (''x'', PInt 1)])]"
proof -
  have m: "map_of [(''$where'', PStr ''year = 2024''), (''$limit'', PInt 5)]
     = map_of [(''$limit'', PInt 5), (''$where'', PStr ''year = 2024'' :: int pyval)]"
    by (rule ext) simp
  have inner: "same_value (PDict [(''x'', PInt 1), (''y'', PInt 2 :: int pyval)])
                 (PDict [(''y'', PInt 2), (''x'', PInt 1)])"
    by (rule same_dict) (simp_all add: same_refl)
  have s: "same_value
     (PDict [(''a'', PDict [(''x'', PInt 1), (''y'', PInt 2)]), (''b'', PNone :: int pyval)])
     (PDict [(''b'', PNone), (''a'', PDict [(''y'', PInt 2), (''x'', PInt 1)])])"
    by (rule same_dict) (simp_all add: same_refl inner)
  from m s
    cache_key_order_independent [of "[(''$where'', PStr ''year = 2024''), (''$limit'', PInt 5)]"
      "[(''$limit'', PInt 5), (''$where'', PStr ''year = 2024'')]" lib0 "''contracts''"]
    cache_key_order_independent [of
      "[(''a'', PDict [(''x'', PInt 1), (''y'', PInt 2)]), (''b'', PNone)]"
      "[(''b'', PNone), (''a'', PDict [(''y'', PInt 2), (''x'', PInt 1)])]" lib0 "''contracts''"]
  show ?thesis by simp
qed

subsection \<open>QueryParser\<close>

text \<open>Group 1 takes part in every match of the four patterns that read it.\<close>

lemma ends_with_group_captured:
  "ends_with_group n r \<Longrightarrow> st' \<in> set (matches r st) \<Longrightarrow> map_of (ms_groups st') n \<noteq> None"
  by (induction n r arbitrary: st st' rule: ends_with_group.induct) auto

lemma search_from_match:
  "search_from r seen rest = Some m \<Longrightarrow> \<exists>seen' rest'. match_at r seen' rest' = Some m"
  by (induction rest arbitrary: seen) (auto split: option.splits)

lemma match_at_state:
  assumes "match_at r seen rest = Some m"
  shows "\<exists>st0 st. st \<in> set (matches r st0) \<and> m_groups m = ms_groups st"
proof -
  obtain st sts where e: "matches r \<lparr>ms_before = seen, ms_after = rest, ms_groups = []\<rparr> = st # sts"
    and m: "m_groups m = ms_groups st"
    using assms by (auto simp: match_at_def split: list.splits)
  have "st \<in> set (matches r \<lparr>ms_before = seen, ms_after = rest, ms_groups = []\<rparr>)"
    unfolding e by simp
  with m show ?thesis by blast
qed

lemma search_group1:
  assumes "ends_with_group 1 r" and "re_search r s = Some m"
  shows "map_of (m_groups m) 1 = Some (group1 m)"
proof -
  obtain seen rest where "match_at r seen rest = Some m"
    using assms(2) unfolding re_search_def by (blast dest: search_from_match)
  then obtain st0 st where st: "st \<in> set (matches r st0)" and g: "m_groups m = ms_groups st"
    by (blast dest: match_at_state)
  from ends_with_group_captured [OF assms(1) st]
  obtain t where "map_of (ms_groups st) 1 = Some t" by blast
  with g show ?thesis by (simp add: group1_def)
qed

lemma patterns_end_with_group1:
  "ends_with_group 1 buyer_rx" "ends_with_group 1 supplier_rx" "ends_with_group 1 amount_rx"
  "ends_with_group 1 limit_rx"
  by (simp_all add: buyer_rx_def supplier_rx_def amount_rx_def limit_rx_def)

lemma decimal_chars:
  "is_decimal CHR ''1''" "is_decimal CHR ''9''" "is_decimal CHR ''2''" "is_decimal CHR ''0''"
  by (simp_all add: is_decimal_def code_def)

lemma year_match_digits:
  "match_at year_rx seen rest = Some m \<Longrightarrow> m_whole m \<noteq> [] \<and> list_all is_decimal (m_whole m)"
  by (auto simp: match_at_def year_rx_def advance_def decimal_chars
      split: list.splits if_splits)


lemma update_serialisable:
  "serialisable v \<Longrightarrow> list_all (\<lambda>(k, v). serialisable v) fs \<Longrightarrow>
   list_all (\<lambda>(k, v). serialisable v) (AList.update key v fs)"
  by (induction fs) auto

lemma year_filter_total:
  "\<exists>fs'. year_filter lowered fs = Inr fs' \<and>
     (list_all (\<lambda>(k, v). serialisable v) fs \<longrightarrow> list_all (\<lambda>(k, v). serialisable v) fs')"
proof (cases "re_search year_rx lowered")
  case None
  then show ?thesis by (simp add: year_filter_def)
next
  case (Some m)
  then obtain seen rest where "match_at year_rx seen rest = Some m"
    unfolding re_search_def by (blast dest: search_from_match)
  then have "m_whole m \<noteq> [] \<and> list_all is_decimal (m_whole m)"
    by (rule year_match_digits)
  then obtain n where "py_int (m_whole m) = Inr n"
    by (simp add: py_int_def)
  with Some show ?thesis
    by (simp add: year_filter_def update_serialisable)
qed

lemma buyer_filter_serialisable:
  "list_all (\<lambda>(k, v). serialisable v) fs \<Longrightarrow>
   list_all (\<lambda>(k, v). serialisable v) (buyer_filter qtext fs)"
  by (simp add: buyer_filter_def update_serialisable split: option.splits)

lemma supplier_filter_serialisable:
  "list_all (\<lambda>(k, v). serialisable v) fs \<Longrightarrow>
   list_all (\<lambda>(k, v). serialisable v) (supplier_filter qtext fs)"
  by (simp add: supplier_filter_def update_serialisable Let_def split: option.splits)

lemma amount_filter_serialisable:
  "list_all (\<lambda>(k, v). serialisable v) fs \<Longrightarrow>
   list_all (\<lambda>(k, v). serialisable v) (amount_filter lib lowered fs)"
  by (simp add: amount_filter_def update_serialisable Let_def split: option.splits)

lemma serialisable_int_obj: "serialisable (int_obj l)"
  by (cases l) simp_all

lemma detect_limit_positive: "detect_limit lowered = Some l \<Longrightarrow> 0 < int_value l"
  by (auto simp: detect_limit_def split: option.splits sum.splits if_splits)

lemma strip_entity_names:
  "strip ''suppliers'' = ''suppliers''" "strip ''agencies'' = ''agencies''"
  "strip ''contracts'' = ''contracts''"
  by code_simp+

lemma detect_entity_cases:
  "detect_entity lowered = ''suppliers'' \<or> detect_entity lowered = ''agencies'' \<or>
   detect_entity lowered = ''contracts''"
  by (simp add: detect_entity_def)

lemma detect_entity_nonblank: "detect_entity lowered \<noteq> [] \<and> strip (detect_entity lowered) \<noteq> []"
  using detect_entity_cases [of lowered] by (auto simp: strip_entity_names)

lemma heuristic_parse_total:
  "\<exists>fs. heuristic_parse lib qtext =
          Inr \<lparr>gr_entity = PStr (detect_entity (lower qtext)), gr_filters = fs,
               gr_metrics = detect_metrics (lower qtext), gr_limit = detect_limit (lower qtext)\<rparr> \<and>
        list_all (\<lambda>(k, v). serialisable v) fs"
proof -
  obtain f1 where f1: "year_filter (lower qtext) ([] :: (string \<times> 'a pyval) list) = Inr f1"
    "list_all (\<lambda>(k, v). serialisable v) f1"
    using year_filter_total [of "lower qtext" "[] :: (string \<times> 'a pyval) list"] by auto
  then show ?thesis
    by (simp add: heuristic_parse_def Let_def buyer_filter_serialisable
        supplier_filter_serialisable amount_filter_serialisable)
qed

lemma parse_heuristic_path:
  assumes "llm_response lib llm qtext = None"
  shows "\<exists>fs. parse lib llm qtext =
           Inr \<lparr>qp_entity = detect_entity (lower qtext), qp_filters = fs,
                qp_metrics = detect_metrics (lower qtext), qp_raw_query = qtext,
                qp_limit = detect_limit (lower qtext)\<rparr>"
proof -
  obtain fs where h: "heuristic_parse lib qtext =
          Inr \<lparr>gr_entity = PStr (detect_entity (lower qtext)), gr_filters = fs,
               gr_metrics = detect_metrics (lower qtext), gr_limit = detect_limit (lower qtext)\<rparr>"
    and ser: "list_all (\<lambda>(k, v). serialisable v) fs"
    using heuristic_parse_total by blast
  have lim: "\<not> (case detect_limit (lower qtext) of None \<Rightarrow> False | Some l \<Rightarrow> int_value l \<le> 0)"
    using detect_limit_positive [of "lower qtext"] by (auto split: option.splits)
  have met: "list_all serialisable (detect_metrics (lower qtext) :: 'a pyval list)"
    by (simp add: detect_metrics_def)
  from assms h ser lim met detect_entity_nonblank [of "lower qtext"] show ?thesis
    by (simp add: parse_def or_else_def QueryParams_def to_json_def json_dumps_def as_dict_def
        serialisable_int_obj split: option.splits)
qed

lemma unavailable_no_response:
  "llm_unavailable lib llm qtext \<Longrightarrow> llm_response lib llm qtext = None"
  by (auto simp: llm_unavailable_def llm_response_def unusable_output_def wrong_shape_def
      coerce_response_def coerce_payload_def Let_def
      split: option.splits sum.splits pyval.splits)

lemma ex3_lower: "lower ''Contratos de la entidad Ministerio de Salud 2022'' = ''contratos de la entidad ministerio de salud 2022''"
  by code_simp
lemma ex3_entity: "detect_entity ''contratos de la entidad ministerio de salud 2022'' = ''agencies''"
  by code_simp
lemma ex3_year: "re_search year_rx ''contratos de la entidad ministerio de salud 2022'' = Some \<lparr>m_whole = ''2022'', m_groups = [(1, ''20'')]\<rparr>"
  by code_simp
lemma int_2022: "py_int ''2022'' = Inr 2022"
  by code_simp
lemma ex3_buyer: "re_search buyer_rx ''Contratos de la entidad Ministerio de Salud 2022'' = Some \<lparr>m_whole = ''entidad Ministerio de Salud 2022'', m_groups = [(1, ''Ministerio de Salud 2022'')]\<rparr>"
  by code_simp
lemma ex3_buyer_name: "strip ''Ministerio de Salud 2022'' = ''Ministerio de Salud 2022''"
  by code_simp
lemma ex3_supplier: "re_search supplier_rx ''Contratos de la entidad Ministerio de Salud 2022'' = None"
  by code_simp
lemma ex3_amount: "re_search amount_rx ''contratos de la entidad ministerio de salud 2022'' = None"
  by code_simp
lemma ex3_metrics: "\<not> contains (''cu'' @ [CHR 0xE1] @ ''nto'') ''contratos de la entidad ministerio de salud 2022'' \<and>
   \<not> contains ''total'' ''contratos de la entidad ministerio de salud 2022'' \<and> \<not> contains ''sum'' ''contratos de la entidad ministerio de salud 2022''"
  by code_simp
lemma ex3_limit: "detect_limit ''contratos de la entidad ministerio de salud 2022'' = None"
  by code_simp

lemma ex3_heuristic:
  "llm_response lib llm ''Contratos de la entidad Ministerio de Salud 2022'' = None \<Longrightarrow>
   parse lib llm ''Contratos de la entidad Ministerio de Salud 2022'' =
     Inr \<lparr>qp_entity = ''agencies'',
          qp_filters = [(''year'', PInt 2022), (''buyer'', PStr ''Ministerio de Salud 2022'')],
          qp_metrics = [],
          qp_raw_query = ''Contratos de la entidad Ministerio de Salud 2022'', qp_limit = None\<rparr>"
  by (simp add: parse_def heuristic_parse_def year_filter_def buyer_filter_def
      supplier_filter_def amount_filter_def detect_metrics_def group1_def or_else_def
      QueryParams_def to_json_def json_dumps_def as_dict_def strip_entity_names
      ex3_lower ex3_entity ex3_year int_2022 ex3_buyer ex3_buyer_name ex3_supplier ex3_amount
      ex3_metrics ex3_limit)

text \<open>
  Where the fallback works. When no client is configured, the client raises, or
  \<open>_coerce_response\<close> rejects the output (a text that is not JSON, a payload that is not
  a dictionary, \<open>filters\<close> not a dictionary, \<open>metrics\<close> not iterable), \<open>parse\<close> raises
  nothing and returns, for every text, the \<open>QueryParams\<close> of the heuristics, whose entity
  is not blank. With a model that answers a text that is not JSON, the question about the
  Ministerio de Salud gives the entity \<open>agencies\<close>, the year 2022 as an integer and a
  non-empty buyer.
\<close>

lemma parse_fallback_when_rejected:
  "(llm_unavailable lib llm qtext \<longrightarrow>
      (\<exists>params. parse lib llm qtext = Inr params \<and> qp_entity params \<noteq> [] \<and>
         strip (qp_entity params) \<noteq> [] \<and> qp_raw_query params = qtext \<and>
         parse lib None qtext = Inr params)) \<and>
   (json_loads lib reply = None \<longrightarrow>
      parse lib (Some (\<lambda>prompt. Inr (PStr reply)))
        ''Contratos de la entidad Ministerio de Salud 2022'' =
      Inr \<lparr>qp_entity = ''agencies'',
           qp_filters = [(''year'', PInt 2022), (''buyer'', PStr ''Ministerio de Salud 2022'')],
           qp_metrics = [],
           qp_raw_query = ''Contratos de la entidad Ministerio de Salud 2022'',
           qp_limit = None\<rparr>)"
proof (intro conjI impI)
  assume u: "llm_unavailable lib llm qtext"
  have n: "llm_response lib None qtext = None" by (simp add: llm_response_def)
  obtain fs where a: "parse lib llm qtext =
           Inr \<lparr>qp_entity = detect_entity (lower qtext), qp_filters = fs,
                qp_metrics = detect_metrics (lower qtext), qp_raw_query = qtext,
                qp_limit = detect_limit (lower qtext)\<rparr>"
    using parse_heuristic_path [OF unavailable_no_response [OF u]] by blast
  have "parse lib llm qtext = parse lib None qtext"
    using unavailable_no_response [OF u] n by (simp add: parse_def)
  with a detect_entity_nonblank [of "lower qtext"]
  show "\<exists>params. parse lib llm qtext = Inr params \<and> qp_entity params \<noteq> [] \<and>
         strip (qp_entity params) \<noteq> [] \<and> qp_raw_query params = qtext \<and>
         parse lib None qtext = Inr params"
    by simp
next
  assume "json_loads lib reply = None"
  then have "llm_response lib (Some (\<lambda>prompt. Inr (PStr reply)))
               ''Contratos de la entidad Ministerio de Salud 2022'' = None"
    by (simp add: llm_response_def coerce_response_def)
  then show "parse lib (Some (\<lambda>prompt. Inr (PStr reply)))
        ''Contratos de la entidad Ministerio de Salud 2022'' =
      Inr \<lparr>qp_entity = ''agencies'',
           qp_filters = [(''year'', PInt 2022), (''buyer'', PStr ''Ministerio de Salud 2022'')],
           qp_metrics = [],
           qp_raw_query = ''Contratos de la entidad Ministerio de Salud 2022'',
           qp_limit = None\<rparr>"
    by (rule ex3_heuristic)
qed

text \<open>
  C3. The claim says that \<open>parse\<close> raises nothing and falls back to the heuristics
  whenever the output of the language model is malformed. The code does so only for the
  outputs that \<open>_coerce_response\<close> rejects. An output that it accepts and whose entity is
  not a usable string reaches the constructor of \<open>QueryParams\<close>, which is called outside
  the \<open>try\<close>: for the output \<open>{"entity": 5}\<close> \<open>parse\<close> raises \<open>AttributeError\<close>, for
  a blank entity \<open>ValueError\<close>, whatever the text of the question, and whether the output
  comes as a dictionary or as JSON text.
\<close>

theorem parse_raises_on_bad_entity:
  "parse lib (Some (\<lambda>prompt. Inr (PDict [(''entity'', PInt 5)]))) qtext = Inl AttributeError \<and>
   parse lib (Some (\<lambda>prompt. Inr (PDict [(''entity'', PStr '' '')]))) qtext
     = Inl (ValueError ''entity must be a non-empty string'') \<and>
   (json_loads lib reply = Some (PDict [(''entity'', PInt 5)]) \<longrightarrow>
      parse lib (Some (\<lambda>prompt. Inr (PStr reply))) qtext = Inl AttributeError) \<and>
   (json_loads lib reply = Some (PDict [(''entity'', PStr '' '')]) \<longrightarrow>
      parse lib (Some (\<lambda>prompt. Inr (PStr reply))) qtext
        = Inl (ValueError ''entity must be a non-empty string''))"
proof -
  have blank: "strip '' '' = []" by code_simp
  have c5: "coerce_payload lib (PDict [(''entity'', PInt 5)]) =
              Inr (Some \<lparr>gr_entity = PInt 5, gr_filters = [], gr_metrics = [], gr_limit = None\<rparr>)"
    by (simp add: coerce_payload_def coerce_limit_def dict_get_def or_else_def)
  have cb: "coerce_payload lib (PDict [(''entity'', PStr '' '')]) =
              Inr (Some \<lparr>gr_entity = PStr '' '', gr_filters = [], gr_metrics = [],
                         gr_limit = None\<rparr>)"
    by (simp add: coerce_payload_def coerce_limit_def dict_get_def or_else_def)
  show ?thesis
    using c5 cb blank
    by (simp add: parse_def llm_response_def coerce_response_def or_else_def QueryParams_def)
qed

theorem parse_raises_on_bad_entity_witness:
  "json_loads lib0 (''{'' @ [dquote] @ ''entity'' @ [dquote] @ '': 5}'')
     = Some (PDict [(''entity'', PInt 5)]) \<and>
   parse lib0 (Some (\<lambda>prompt. Inr (PStr (''{'' @ [dquote] @ ''entity'' @ [dquote] @ '': 5}''))))
     ''Total contratos'' = Inl AttributeError \<and>
   parse lib0 (Some (\<lambda>prompt. Inr (PDict [(''entity'', PStr '' '')]))) ''Total contratos''
     = Inl (ValueError ''entity must be a non-empty string'')"
proof -
  have j: "json_loads lib0 (''{'' @ [dquote] @ ''entity'' @ [dquote] @ '': 5}'')
             = Some (PDict [(''entity'', PInt 5)])"
    by (simp add: lib0_def)
  from j parse_raises_on_bad_entity [of lib0 "''Total contratos''"
      "''{'' @ [dquote] @ ''entity'' @ [dquote] @ '': 5}''"]
  show ?thesis by blast
qed

lemma ex4_lower: "lower ''Top 5 contratos del proveedor ACME Corp 2024'' = ''top 5 contratos del proveedor acme corp 2024''"
  by code_simp
lemma ex4_entity: "detect_entity ''top 5 contratos del proveedor acme corp 2024'' = ''suppliers''"
  by code_simp
lemma ex4_year: "re_search year_rx ''top 5 contratos del proveedor acme corp 2024'' = Some \<lparr>m_whole = ''2024'', m_groups = [(1, ''20'')]\<rparr>"
  by code_simp
lemma int_2024: "py_int ''2024'' = Inr 2024"
  by code_simp
lemma ex4_buyer: "re_search buyer_rx ''Top 5 contratos del proveedor ACME Corp 2024'' = None"
  by code_simp
lemma ex4_supplier: "re_search supplier_rx ''Top 5 contratos del proveedor ACME Corp 2024'' = Some \<lparr>m_whole = ''proveedor ACME Corp 2024'', m_groups = [(1, ''ACME Corp 2024'')]\<rparr>"
  by code_simp
lemma ex4_supplier_name: "strip_chars '' ,.-'' (re_sub_empty trailing_year_rx (strip ''ACME Corp 2024'')) = ''ACME Corp''"
  by code_simp
lemma ex4_amount: "re_search amount_rx ''top 5 contratos del proveedor acme corp 2024'' = None"
  by code_simp
lemma ex4_metrics: "\<not> contains (''cu'' @ [CHR 0xE1] @ ''nto'') ''top 5 contratos del proveedor acme corp 2024'' \<and>
   \<not> contains ''total'' ''top 5 contratos del proveedor acme corp 2024'' \<and> \<not> contains ''sum'' ''top 5 contratos del proveedor acme corp 2024''"
  by code_simp
lemma ex4_limit: "detect_limit ''top 5 contratos del proveedor acme corp 2024'' = Some (IntObj 5)"
  by code_simp

text \<open>
  C4. With no language-model client, the question about the supplier ACME Corp gives the
  entity \<open>suppliers\<close>, the supplier \<open>ACME Corp\<close> (the year removed from its end), the
  year 2024 as an integer and the limit 5.
\<close>

theorem parse_supplier_example:
  "parse lib None ''Top 5 contratos del proveedor ACME Corp 2024'' =
     Inr \<lparr>qp_entity = ''suppliers'',
          qp_filters = [(''year'', PInt 2024), (''supplier'', PStr ''ACME Corp'')],
          qp_metrics = [],
          qp_raw_query = ''Top 5 contratos del proveedor ACME Corp 2024'',
          qp_limit = Some (IntObj 5)\<rparr>"
  by (simp add: parse_def llm_response_def heuristic_parse_def year_filter_def buyer_filter_def
      supplier_filter_def amount_filter_def detect_metrics_def group1_def or_else_def
      QueryParams_def to_json_def json_dumps_def as_dict_def strip_entity_names
      ex4_lower ex4_entity ex4_year int_2024 ex4_buyer ex4_supplier ex4_supplier_name ex4_amount
      ex4_metrics ex4_limit)

theorem parse_supplier_example_witness:
  "parse lib0 None ''Top 5 contratos del proveedor ACME Corp 2024'' =
     Inr \<lparr>qp_entity = ''suppliers'',
          qp_filters = [(''year'', PInt 2024), (''supplier'', PStr ''ACME Corp'')],
          qp_metrics = [],
          qp_raw_query = ''Top 5 contratos del proveedor ACME Corp 2024'',
          qp_limit = Some (IntObj 5)\<rparr>"
  by (rule parse_supplier_example)

end
